theory Spec2Isabelle
  imports Main "HOL-Library.Sublist"
begin

section \<open>Go library functions used by the request pipeline\<close>

text \<open>
  Strings are byte lists. The functions of this section are the Go standard library
  functions that the source calls (\<^verbatim>\<open>strings\<close>, \<^verbatim>\<open>path\<close>, \<^verbatim>\<open>path/filepath\<close> on a
  slash-separated system); they are written out so that the handlers below can be
  evaluated on concrete requests.
\<close>

definition strings_HasPrefix :: "string \<Rightarrow> string \<Rightarrow> bool" where
  "strings_HasPrefix s pre = prefix pre s"

definition strings_TrimPrefix :: "string \<Rightarrow> string \<Rightarrow> string" where
  "strings_TrimPrefix s pre = (if prefix pre s then drop (length pre) s else s)"

definition strings_TrimSuffix :: "string \<Rightarrow> string \<Rightarrow> string" where
  "strings_TrimSuffix s suf = (if suffix suf s then take (length s - length suf) s else s)"

text \<open>
  \<^verbatim>\<open>strings.Split(s, sep)\<close>: the pieces of \<open>s\<close> between the occurrences of \<open>sep\<close>,
  scanning from the left; the result is never empty (\<open>Split("", ".")\<close> is \<open>[""]\<close>).
  With an empty separator Go splits after every character.
\<close>

function split_from :: "string \<Rightarrow> string \<Rightarrow> string \<Rightarrow> string list" where
  "split_from sep cur s =
     (if s = [] then [cur]
      else if sep \<noteq> [] \<and> prefix sep s then cur # split_from sep [] (drop (length sep) s)
      else split_from sep (cur @ [hd s]) (tl s))"
  by pat_completeness auto
termination
  by (relation "measure (\<lambda>(sep, cur, s). length s)") (auto simp: neq_Nil_conv)

declare split_from.simps [simp del]

definition strings_Split :: "string \<Rightarrow> string \<Rightarrow> string list" where
  "strings_Split s sep = (if sep = [] then map (\<lambda>c. [c]) s else split_from sep [] s)"

fun strings_Join :: "string list \<Rightarrow> string \<Rightarrow> string" where
  "strings_Join [] sep = []"
| "strings_Join [e] sep = e"
| "strings_Join (e # es) sep = e @ sep @ strings_Join es sep"

text \<open>
  \<^verbatim>\<open>path.Clean\<close>: empty and \<open>.\<close> elements are dropped, an inner \<open>..\<close> removes the
  element before it, a \<open>..\<close> at the start of a rooted path is dropped and one at the
  start of a relative path is kept; the empty result is \<open>.\<close>. The stack of kept
  elements is held in reverse.
\<close>

definition clean_step :: "bool \<Rightarrow> string list \<Rightarrow> string \<Rightarrow> string list" where
  "clean_step rooted st c =
     (if c = [] \<or> c = ''.'' then st
      else if c = ''..'' then
        (case st of
           [] \<Rightarrow> if rooted then [] else [''..'']
         | e # rest \<Rightarrow> if e = ''..'' then ''..'' # st else rest)
      else c # st)"

definition path_Clean :: "string \<Rightarrow> string" where
  "path_Clean p =
     (if p = [] then ''.''
      else
        let rooted = (hd p = CHR ''/'');
            st = foldl (clean_step rooted) [] (strings_Split p ''/'');
            out = strings_Join (rev st) ''/''
        in if rooted then ''/'' @ out else if out = [] then ''.'' else out)"

text \<open>
  \<^verbatim>\<open>path.Join\<close> / \<^verbatim>\<open>filepath.Join\<close>: leading empty elements are ignored, the rest is
  joined with slashes and cleaned; all elements empty gives the empty string.
\<close>

definition path_Join :: "string list \<Rightarrow> string" where
  "path_Join elem =
     (case dropWhile (\<lambda>e. e = []) elem of
        [] \<Rightarrow> []
      | es \<Rightarrow> path_Clean (strings_Join es ''/''))"

text \<open>\<^verbatim>\<open>path.Dir\<close>: everything up to the last slash, cleaned.\<close>

definition path_Dir :: "string \<Rightarrow> string" where
  "path_Dir p = path_Clean (rev (dropWhile (\<lambda>c. c \<noteq> CHR ''/'') (rev p)))"

text \<open>\<^verbatim>\<open>path.Base\<close>: the last element, trailing slashes removed first.\<close>

definition path_Base :: "string \<Rightarrow> string" where
  "path_Base p =
     (if p = [] then ''.''
      else
        let q = rev (dropWhile (\<lambda>c. c = CHR ''/'') (rev p));
            b = rev (takeWhile (\<lambda>c. c \<noteq> CHR ''/'') (rev q))
        in if b = [] then ''/'' else b)"

text \<open>
  \<^verbatim>\<open>filepath.Ext\<close>: the suffix of the last path element that starts at its final dot,
  empty when that element has no dot.
\<close>

definition filepath_Ext :: "string \<Rightarrow> string" where
  "filepath_Ext p =
     (let e = takeWhile (\<lambda>c. c \<noteq> CHR ''/'') (rev p)
      in if CHR ''.'' \<in> set e then ''.'' @ rev (takeWhile (\<lambda>c. c \<noteq> CHR ''.'') e)
         else [])"

section \<open>The request handler of the evaluation server\<close>

subsection \<open>The world outside the handler\<close>

text \<open>
  The handler reads the file system; the model receives what it would see as an
  argument: \<open>stat p\<close> says whether \<^verbatim>\<open>os.Stat(p)\<close> succeeds, and \<open>dotenv p\<close> is the
  result of \<^verbatim>\<open>godotenv.Read(p)\<close>, a parse error or the key-value map of the file.
\<close>

type_synonym env = "string \<rightharpoonup> string"

record filesystem =
  stat :: "string \<Rightarrow> bool"
  dotenv :: "string \<Rightarrow> string + env"

definition exists :: "filesystem \<Rightarrow> string \<Rightarrow> bool" where
  "exists fs path = stat fs path"

subsection \<open>Entrypoint resolution\<close>

definition extensions :: "string list" where
  "extensions = [''.js'', ''.ts'', ''.jsx'', ''.tsx'']"

text \<open>
  One \<^verbatim>\<open>for _, ext := range extensions\<close> loop of \<^verbatim>\<open>inferEntrypoint\<close>: the candidate
  for each extension is built by \<open>mk\<close>, and the loop returns at the first one that exists.
\<close>

fun try_extensions :: "filesystem \<Rightarrow> (string \<Rightarrow> string) \<Rightarrow> string list \<Rightarrow> string option" where
  "try_extensions fs mk [] = None"
| "try_extensions fs mk (ext # exts) =
     (let entrypoint = mk ext
      in if exists fs entrypoint then Some entrypoint else try_extensions fs mk exts)"

definition inferEntrypoint :: "filesystem \<Rightarrow> string \<Rightarrow> string \<Rightarrow> string + string" where
  "inferEntrypoint fs rootDir alias =
     (case try_extensions fs (\<lambda>ext. path_Join [rootDir, alias @ ext]) extensions of
        Some entrypoint \<Rightarrow> Inr entrypoint
      | None \<Rightarrow>
     (case try_extensions fs (\<lambda>ext. path_Join [rootDir, alias, ''mod'' @ ext]) extensions of
        Some entrypoint \<Rightarrow> Inr entrypoint
      | None \<Rightarrow>
     (case try_extensions fs (\<lambda>ext. path_Join [rootDir, alias, alias @ ext]) extensions of
        Some entrypoint \<Rightarrow> Inr entrypoint
      | None \<Rightarrow>
     (let entrypoint = path_Join [rootDir, alias, ''index.html'']
      in if exists fs entrypoint then Inr entrypoint
         else Inl ''entrypoint not found''))))"

text \<open>
  The candidates in the order the specification lists them:
  \<open>rootDir/alias.{js,ts,jsx,tsx}\<close>, \<open>rootDir/alias/mod.{js,ts,jsx,tsx}\<close>,
  \<open>rootDir/alias/alias.{js,ts,jsx,tsx}\<close>, \<open>rootDir/alias/index.html\<close>.
\<close>

definition spec_candidates :: "string \<Rightarrow> string \<Rightarrow> string list" where
  "spec_candidates rootDir alias =
     [path_Join [rootDir, alias @ ''.js''], path_Join [rootDir, alias @ ''.ts''],
      path_Join [rootDir, alias @ ''.jsx''], path_Join [rootDir, alias @ ''.tsx''],
      path_Join [rootDir, alias, ''mod.js''], path_Join [rootDir, alias, ''mod.ts''],
      path_Join [rootDir, alias, ''mod.jsx''], path_Join [rootDir, alias, ''mod.tsx''],
      path_Join [rootDir, alias, alias @ ''.js''], path_Join [rootDir, alias, alias @ ''.ts''],
      path_Join [rootDir, alias, alias @ ''.jsx''], path_Join [rootDir, alias, alias @ ''.tsx''],
      path_Join [rootDir, alias, ''index.html'']]"

subsection \<open>Environment composition\<close>

text \<open>
  \<^verbatim>\<open>for k, v := range dirEnv { env[k] = v }\<close> writes every binding of \<open>dirEnv\<close> into
  \<open>env\<close>: the map \<open>env ++ dirEnv\<close>.
\<close>

definition loadEnv :: "filesystem \<Rightarrow> string \<Rightarrow> string \<Rightarrow> string + env" where
  "loadEnv fs root entrypoint =
     (if filepath_Ext entrypoint = ''.html'' then Inr Map.empty
      else
        let rootEnvPath = path_Join [root, ''.env''];
            envPath = path_Join [path_Dir entrypoint, ''.env'']
        in case (if exists fs rootEnvPath then dotenv fs rootEnvPath else Inr Map.empty) of
             Inl err \<Rightarrow> Inl err
           | Inr env \<Rightarrow>
               if \<not> exists fs envPath \<or> envPath = rootEnvPath then Inr env
               else (case dotenv fs envPath of
                       Inl err \<Rightarrow> Inl err
                     | Inr dirEnv \<Rightarrow> Inr (env ++ dirEnv)))"

subsection \<open>Requests and their serialization\<close>

text \<open>
  \<^verbatim>\<open>url.URL\<close> with the fields \<^verbatim>\<open>URL.String()\<close> reads. \<open>User\<close> holds the user
  information as \<^verbatim>\<open>String()\<close> renders it. Percent-escaping belongs to \<^verbatim>\<open>net/url\<close> and is
  received as three functions: of the host, \<^verbatim>\<open>EscapedPath()\<close> and
  \<^verbatim>\<open>EscapedFragment()\<close>.
\<close>

record url =
  Scheme :: string
  Opaque :: string
  User :: "string option"
  Host :: string
  Path :: string
  RawPath :: string
  OmitHost :: bool
  ForceQuery :: bool
  RawQuery :: string
  Fragment :: string
  RawFragment :: string

record escaping =
  escapeHost :: "string \<Rightarrow> string"
  EscapedPath :: "url \<Rightarrow> string"
  EscapedFragment :: "url \<Rightarrow> string"

text \<open>\<^verbatim>\<open>URL.String()\<close>, in the order the library writes the parts.\<close>

definition URL_String :: "escaping \<Rightarrow> url \<Rightarrow> string" where
  "URL_String esc u =
     (let buf0 = (if Scheme u \<noteq> [] then Scheme u @ '':'' else []);
          buf1 =
            (if Opaque u \<noteq> [] then buf0 @ Opaque u
             else
               let auth =
                     (if Scheme u \<noteq> [] \<or> url.Host u \<noteq> [] \<or> User u \<noteq> None then
                        (if OmitHost u \<and> url.Host u = [] \<and> User u = None then []
                         else
                           (if url.Host u \<noteq> [] \<or> Path u \<noteq> [] \<or> User u \<noteq> None
                            then ''//'' else [])
                           @ (case User u of None \<Rightarrow> [] | Some ui \<Rightarrow> ui @ ''@'')
                           @ (if url.Host u \<noteq> [] then escapeHost esc (url.Host u) else []))
                      else []);
                   path = EscapedPath esc u;
                   buf2 = buf0 @ auth
                     @ (if path \<noteq> [] \<and> hd path \<noteq> CHR ''/'' \<and> url.Host u \<noteq> []
                        then ''/'' else []);
                   buf3 = buf2
                     @ (if buf2 = [] \<and> CHR '':'' \<in> set (takeWhile (\<lambda>c. c \<noteq> CHR ''/'') path)
                        then ''./'' else [])
               in buf3 @ path)
      in buf1
         @ (if ForceQuery u \<or> RawQuery u \<noteq> [] then ''?'' @ RawQuery u else [])
         @ (if Fragment u \<noteq> [] then ''#'' @ EscapedFragment esc u else []))"

text \<open>
  \<^verbatim>\<open>http.Request\<close>. \<open>TLS\<close> is \<^verbatim>\<open>req.TLS != nil\<close>. \<open>Header\<close> lists the entries of
  the header map, name and values, in the order in which a \<^verbatim>\<open>range\<close> over the map
  visits them. \<open>Body\<close> is the result of \<^verbatim>\<open>io.ReadAll(req.Body)\<close>: a read error or all
  the bytes. \<open>BasicAuth\<close>, \<open>Cookies\<close> and \<open>Query\<close> are the results of the accessors
  \<^verbatim>\<open>r.BasicAuth()\<close> (user name and password when the request carries well-formed Basic
  credentials), \<^verbatim>\<open>r.Cookies()\<close> and \<^verbatim>\<open>r.URL.Query()\<close>.
\<close>

record request =
  Method :: string
  URL :: url
  Host :: string
  TLS :: bool
  Header :: "(string \<times> string list) list"
  Body :: "string + string"
  BasicAuth :: "(string \<times> string) option"
  Cookies :: "(string \<times> string) list"
  Query :: "(string \<times> string) list"

record SerializedRequest =
  req_Url :: string
  req_Method :: string
  req_Headers :: "string list list"
  req_Body :: string

datatype failure = Error string | Panic string

text \<open>
  \<^verbatim>\<open>for k, v := range req.Header { res.Headers = append(res.Headers, []string{k, v[0]}) }\<close>;
  \<^verbatim>\<open>v[0]\<close> panics on a header without values. In \<^verbatim>\<open>serializeRequest\<close> the
  assignments to \<^verbatim>\<open>url\<close> write through the pointer into the URL of the request; the
  handler does not read that URL afterwards, so the model returns the serialized request
  only.
\<close>

fun serialize_headers :: "(string \<times> string list) list \<Rightarrow> string list list option" where
  "serialize_headers [] = Some []"
| "serialize_headers ((k, v) # rest) =
     (case v of
        [] \<Rightarrow> None
      | v0 # _ \<Rightarrow> map_option ((#) [k, v0]) (serialize_headers rest))"

definition serializeRequest :: "escaping \<Rightarrow> request \<Rightarrow> failure + SerializedRequest" where
  "serializeRequest esc req =
     (let url = (URL req)\<lparr>url.Host := Host req\<rparr>;
          url = (if TLS req then url\<lparr>Scheme := ''https''\<rparr> else url\<lparr>Scheme := ''http''\<rparr>)
      in case serialize_headers (Header req) of
           None \<Rightarrow> Inl (Panic ''index out of range'')
         | Some headers \<Rightarrow>
             (case Body req of
                Inl err \<Rightarrow> Inl (Error err)
              | Inr body \<Rightarrow>
                  Inr \<lparr>req_Url = URL_String esc url, req_Method = Method req,
                       req_Headers = headers, req_Body = body\<rparr>))"

record SerializedResponse =
  res_Status :: int
  res_Headers :: "string list list"
  res_Body :: string

subsection \<open>The evaluator child and the handler\<close>

record CommandInput =
  Req :: SerializedRequest
  Entrypoint :: string
  Env :: env
  Output :: string

record Log =
  log_Request :: SerializedRequest
  log_Response :: "SerializedResponse option"
  log_Timestamp :: string
  log_Entrypoint :: string
  log_Duration :: int
  log_Logs :: string

text \<open>
  The child process: its command line, working directory and standard input go in;
  what the handler observes comes out. \<open>StartFailed\<close> is a child that could not be
  started, \<open>Exited c\<close> one that ran and exited with code \<open>c\<close>. \<open>combined\<close> is the
  byte buffer of \<^verbatim>\<open>cmd.CombinedOutput()\<close>, and \<open>artifact\<close> is what opening and decoding
  the output file gives after the run.
\<close>

record command =
  argv :: "string list"
  Dir :: string
  Stdin :: string

datatype process_state = StartFailed string | Exited int

datatype artifact = OpenError string | DecodeError string | Decoded SerializedResponse

record child_run =
  state :: process_state
  combined :: string
  artifact :: artifact

text \<open>\<^verbatim>\<open>CombinedOutput\<close> returns a non-nil error unless the child ran and exited with 0.\<close>

definition run_failed :: "process_state \<Rightarrow> bool" where
  "run_failed st = (case st of StartFailed _ \<Rightarrow> True | Exited c \<Rightarrow> c \<noteq> 0)"

record world =
  fs :: filesystem
  esc :: escaping
  MkdirTemp :: "string + string"
  denoExecutable :: "string + string"
  sandboxPath :: string
  json_Encode :: "CommandInput \<Rightarrow> string + string"
  run_child :: "command \<Rightarrow> child_run"
  timestamp :: string
  duration :: int
  OpenFile :: "string \<Rightarrow> string option"
  Encode :: "Log \<Rightarrow> string option"

text \<open>
  In the world above, \<open>OpenFile p\<close> is the error of
  \<^verbatim>\<open>os.OpenFile(p, O_APPEND|O_CREATE|O_WRONLY, 0644)\<close>, \<open>None\<close> when the file opens (it
  does not when the directory of \<open>p\<close> is missing, and the handler never creates \<open>.logs\<close>),
  and \<open>Encode l\<close> is the error of writing the record \<open>l\<close> as a line of that file.

  What the handler leaves behind: the reply and the records appended to log files. A
  reply \<open>Written\<close> holds the calls made on the response writer, which all returned:
  \<open>header_sets\<close> are the \<^verbatim>\<open>w.Header().Set\<close> calls in order, \<open>code\<close> is the argument of
  \<^verbatim>\<open>WriteHeader\<close> and \<open>body\<close> the bytes given to \<^verbatim>\<open>Write\<close> (a nil body and an empty one
  both write nothing). \<open>Panicked\<close> is a panic of the handler: the server recovers it and
  the client gets no response. \<^verbatim>\<open>http.Error\<close> sets the two headers below, writes the status
  and prints the message followed by a newline.
\<close>

record http_response =
  code :: int
  header_sets :: "(string \<times> string) list"
  body :: string

datatype served = FileServer string | Written http_response | Panicked string

record result =
  reply :: served
  log_writes :: "(string \<times> Log) list"

definition http_Error :: "string \<Rightarrow> int \<Rightarrow> http_response" where
  "http_Error msg c =
     \<lparr>code = c,
      header_sets = [(''Content-Type'', ''text/plain; charset=utf-8''),
                     (''X-Content-Type-Options'', ''nosniff'')],
      body = msg @ [CHR 0x0A]\<rparr>"

definition StatusInternalServerError :: int where
  "StatusInternalServerError = 500"

definition fail500 :: "string \<Rightarrow> result" where
  "fail500 msg = \<lparr>reply = Written (http_Error msg StatusInternalServerError), log_writes = []\<rparr>"

text \<open>
  \<^verbatim>\<open>for _, header := range res.Headers { w.Header().Set(header[0], header[1]) }\<close>; the
  indexing panics on a header with fewer than two elements.
\<close>

fun set_headers :: "string list list \<Rightarrow> (string \<times> string) list option" where
  "set_headers [] = Some []"
| "set_headers (header # rest) =
     (case header of
        k # v # _ \<Rightarrow> map_option ((#) (k, v)) (set_headers rest)
      | _ \<Rightarrow> None)"

text \<open>The decimal digits of an integer, as \<^verbatim>\<open>%v\<close> prints it.\<close>

function show_nat :: "nat \<Rightarrow> string" where
  "show_nat n =
     (if n < 10 then [char_of (48 + n)]
      else show_nat (n div 10) @ [char_of (48 + n mod 10)])"
  by pat_completeness auto
termination
  by (relation "measure (\<lambda>n. n)") auto

declare show_nat.simps [simp del]

definition show_int :: "int \<Rightarrow> string" where
  "show_int i = (if i < 0 then ''-'' @ show_nat (nat (- i)) else show_nat (nat i))"

text \<open>
  The end of the handler: the headers are set, then \<^verbatim>\<open>w.WriteHeader(res.Status)\<close>, which
  panics in \<^verbatim>\<open>net/http\<close> for a status outside 100..999, then the body is written.
\<close>

definition write_response :: "SerializedResponse \<Rightarrow> served" where
  "write_response res =
     (case set_headers (res_Headers res) of
        None \<Rightarrow> Panicked ''index out of range''
      | Some hs \<Rightarrow>
          (if res_Status res < 100 \<or> res_Status res > 999
           then Panicked (''invalid WriteHeader code '' @ show_int (res_Status res))
           else Written \<lparr>code = res_Status res, header_sets = hs, body = res_Body res\<rparr>))"

text \<open>
  \<^verbatim>\<open>writeLog\<close>: the error it returns and the records it has appended. The handler
  drops the error.
\<close>

definition writeLog :: "world \<Rightarrow> Log \<Rightarrow> string \<Rightarrow> string option \<times> (string \<times> Log) list" where
  "writeLog w l logPath =
     (case OpenFile w logPath of
        Some err \<Rightarrow> (Some err, [])
      | None \<Rightarrow>
          (case Encode w l of
             Some err \<Rightarrow> (Some err, [])
           | None \<Rightarrow> (None, [(logPath, l)])))"

definition ServeHTTP :: "world \<Rightarrow> string \<Rightarrow> request \<Rightarrow> result" where
  "ServeHTTP w rootDir r =
     (let host = Host r;
          alias = hd (strings_Split host ''.'')
      in case inferEntrypoint (fs w) rootDir alias of
           Inl err \<Rightarrow> fail500 err
         | Inr entrypoint \<Rightarrow>
      (if path_Base entrypoint = ''index.html''
       then \<lparr>reply = FileServer (path_Dir entrypoint), log_writes = []\<rparr>
       else
      (case loadEnv (fs w) rootDir entrypoint of
           Inl err \<Rightarrow> fail500 err
         | Inr env \<Rightarrow>
      (case serializeRequest (esc w) r of
           Inl (Panic msg) \<Rightarrow> \<lparr>reply = Panicked msg, log_writes = []\<rparr>
         | Inl (Error err) \<Rightarrow> fail500 err
         | Inr req \<Rightarrow>
      (case MkdirTemp w of
           Inl err \<Rightarrow> fail500 err
         | Inr tempdir \<Rightarrow>
      (let output = path_Join [tempdir, ''response.json''];
           input = \<lparr>Req = req, Entrypoint = entrypoint, Env = env, Output = output\<rparr>
       in case denoExecutable w of
            Inl err \<Rightarrow> fail500 err
          | Inr deno \<Rightarrow>
      (case json_Encode w input of
            Inl err \<Rightarrow> fail500 err
          | Inr stdin \<Rightarrow>
      (let cmd = \<lparr>argv = [deno, ''run'', ''-A'', ''--unstable-kv'', sandboxPath w],
                  Dir = path_Dir entrypoint, Stdin = stdin\<rparr>;
           logPath = path_Join [rootDir, ''.logs'', alias @ ''.jsonl''];
           run = run_child w cmd;
           outputBytes = combined run
       in if run_failed (state run)
          then \<lparr>reply = Written (http_Error outputBytes StatusInternalServerError),
                log_writes =
                  snd (writeLog w
                    \<lparr>log_Request = req, log_Response = None, log_Timestamp = timestamp w,
                     log_Entrypoint = entrypoint, log_Duration = duration w,
                     log_Logs = outputBytes\<rparr> logPath)\<rparr>
          else (case artifact run of
                  OpenError err \<Rightarrow> fail500 err
                | DecodeError err \<Rightarrow> fail500 err
                | Decoded res \<Rightarrow>
                    \<lparr>reply = write_response res,
                     log_writes =
                       snd (writeLog w
                         \<lparr>log_Request = req, log_Response = Some res,
                          log_Timestamp = timestamp w, log_Entrypoint = entrypoint,
                          log_Duration = duration w, log_Logs = outputBytes\<rparr> logPath)\<rparr>)))))))))"

section \<open>The \<^verbatim>\<open>up\<close> command: sessions, authentication, dispatch and cron\<close>

subsection \<open>Time\<close>

text \<open>
  A \<^verbatim>\<open>time.Time\<close> is an instant, counted in nanoseconds; a \<^verbatim>\<open>time.Duration\<close> is a
  number of nanoseconds. Every \<^verbatim>\<open>time.Now()\<close> in the source is a reading of its own:
  a function receives the clock as \<open>now :: nat \<Rightarrow> int\<close>, where \<open>now k\<close> is the reading of
  the \<open>k\<close>-th call it makes (from 0).
\<close>

type_synonym time = int
type_synonym clock = "nat \<Rightarrow> time"

definition Second :: int where "Second = 1000000000"
definition Minute :: int where "Minute = 60 * Second"
definition Hour :: int where "Hour = 60 * Minute"

definition time_After :: "time \<Rightarrow> time \<Rightarrow> bool" where
  "time_After t u = (t > u)"

text \<open>\<^verbatim>\<open>t.Truncate(d)\<close>: \<open>t\<close> rounded down to a multiple of \<open>d\<close>; unchanged for \<open>d \<le> 0\<close>.\<close>

definition time_Truncate :: "time \<Rightarrow> int \<Rightarrow> time" where
  "time_Truncate t d = (if d \<le> 0 then t else t - t mod d)"

subsection \<open>The session and token store\<close>

record Session =
  ID :: string
  Email :: string
  Domain :: string
  CreatedAt :: time
  ExpiresAt :: time

record Token =
  Hash :: string

text \<open>
  Modelled from the spec: the package \<^verbatim>\<open>database\<close> (\<^verbatim>\<open>InsertSession\<close>, \<^verbatim>\<open>GetSession\<close>,
  \<^verbatim>\<open>UpdateSession\<close>, \<^verbatim>\<open>DeleteSession\<close>, \<^verbatim>\<open>GetToken\<close>) is not among the sources. The
  store is a table of sessions, one row per session and the id unique, and a table of
  tokens by public id. Each operation acts on the rows with the id it names: a lookup is
  the row with that id or an error, an insertion of an id already there is an error, an
  update replaces the row of the session's id, a deletion removes it.
\<close>

record db =
  sessions :: "Session list"
  tokens :: "string \<rightharpoonup> Token"

text \<open>Modelled from the spec: \<^verbatim>\<open>database.InsertSession\<close>; ids are unique, so a second row with the id of an existing one is refused.\<close>

definition database_InsertSession :: "db \<Rightarrow> Session \<Rightarrow> string + db" where
  "database_InsertSession d s =
     (if list_ex (\<lambda>x. ID x = ID s) (sessions d) then Inl ''UNIQUE constraint failed: sessions.id''
      else Inr (d\<lparr>sessions := sessions d @ [s]\<rparr>))"

text \<open>Modelled from the spec: \<^verbatim>\<open>database.GetSession\<close>, the row with the given id.\<close>

definition database_GetSession :: "db \<Rightarrow> string \<Rightarrow> string + Session" where
  "database_GetSession d sid =
     (case find (\<lambda>x. ID x = sid) (sessions d) of
        None \<Rightarrow> Inl ''no rows in result set''
      | Some s \<Rightarrow> Inr s)"

text \<open>Modelled from the spec: \<^verbatim>\<open>database.UpdateSession\<close>, which rewrites the row with the id of the session.\<close>

definition database_UpdateSession :: "db \<Rightarrow> Session \<Rightarrow> string + db" where
  "database_UpdateSession d s =
     Inr (d\<lparr>sessions := map (\<lambda>x. if ID x = ID s then s else x) (sessions d)\<rparr>)"

text \<open>Modelled from the spec: \<^verbatim>\<open>database.DeleteSession\<close>, which removes the row with the given id.\<close>

definition database_DeleteSession :: "db \<Rightarrow> string \<Rightarrow> string + db" where
  "database_DeleteSession d sid = Inr (d\<lparr>sessions := filter (\<lambda>x. ID x \<noteq> sid) (sessions d)\<rparr>)"

text \<open>Modelled from the spec: \<^verbatim>\<open>database.GetToken\<close>, the token with the given public id.\<close>

definition database_GetToken :: "db \<Rightarrow> string \<Rightarrow> string + Token" where
  "database_GetToken d public =
     (case tokens d public of None \<Rightarrow> Inl ''no rows in result set'' | Some t \<Rightarrow> Inr t)"

text \<open>
  Modelled from the spec: \<^verbatim>\<open>parseToken\<close> is not among the sources. A credential has
  the shape \<open>publicId.secret\<close>: it is split at its first dot, and both sides must be
  non-empty. The middleware below takes the parser as an argument; this one serves
  where a concrete parser is needed.
\<close>

definition parseToken_spec :: "string \<Rightarrow> string + (string \<times> string)" where
  "parseToken_spec tok =
     (let public = takeWhile (\<lambda>c. c \<noteq> CHR ''.'') tok;
          secret = drop (length public + 1) tok
      in if public = [] \<or> secret = [] then Inl ''invalid token'' else Inr (public, secret))"

subsection \<open>The authentication middleware\<close>

text \<open>
  What the middleware receives from outside: the token parser, the outcome of the
  bcrypt comparison (\<open>True\<close> when \<^verbatim>\<open>CompareHashAndPassword\<close> returns no error), the clock,
  and the result of \<^verbatim>\<open>gonanoid.New()\<close>.
\<close>

record cookie =
  Name :: string
  Value :: string
  Expires :: time
  CookiePath :: string

datatype auth_reply =
    Next
  | Challenge string
  | HttpError string int
  | Redirect "cookie list" string int
  | NoReply

text \<open>
  \<open>Next\<close> is \<^verbatim>\<open>next.ServeHTTP(w, r)\<close>; \<open>Challenge c\<close> adds the header
  \<^verbatim>\<open>WWW-Authenticate: c\<close> and replies \<^verbatim>\<open>http.Error(w, "Unauthorized", 401)\<close>;
  \<open>Redirect cs u c\<close> sets the cookies \<open>cs\<close> and redirects to \<open>u\<close> with status \<open>c\<close>;
  \<open>NoReply\<close> is a return with nothing written. The two OAuth endpoints talk to the
  identity provider; the middleware receives their part as functions: \<open>oauth_login\<close>
  is the reply of the \<^verbatim>\<open>/_auth/login\<close> branch, and \<open>oauth_callback\<close> is the
  \<^verbatim>\<open>/_auth/callback\<close> branch up to the user information, either the reply of a failed
  step or the e-mail address of the user and the stored redirect target.
\<close>

record auth_world =
  parseToken :: "string \<Rightarrow> string + (string \<times> string)"
  bcrypt_matches :: "string \<Rightarrow> string \<Rightarrow> bool"
  now :: clock
  nanoid :: "string + string"
  oauth_login :: "request \<Rightarrow> auth_reply"
  oauth_callback :: "request \<Rightarrow> auth_reply + (string \<times> string)"

definition StatusUnauthorized :: int where "StatusUnauthorized = 401"
definition StatusSeeOther :: int where "StatusSeeOther = 303"
definition StatusTemporaryRedirect :: int where "StatusTemporaryRedirect = 307"
definition StatusNotFound :: int where "StatusNotFound = 404"

definition CreateSession :: "auth_world \<Rightarrow> db \<Rightarrow> string \<Rightarrow> string \<Rightarrow> string + (string \<times> db)" where
  "CreateSession aw d email domain =
     (case nanoid aw of
        Inl err \<Rightarrow> Inl (''failed to generate session ID: '' @ err)
      | Inr sessionID \<Rightarrow>
          (let session = \<lparr>ID = sessionID, Email = email, Domain = domain,
                          CreatedAt = now aw 0, ExpiresAt = now aw 1 + 14 * 24 * Hour\<rparr>
           in (case database_InsertSession d session of
                 Inl err \<Rightarrow> Inl (''failed to insert session: '' @ err)
               | Inr d' \<Rightarrow> Inr (sessionID, d'))))"

definition DeleteSession :: "db \<Rightarrow> string \<Rightarrow> string + db" where
  "DeleteSession d sessionID =
     (case database_DeleteSession d sessionID of
        Inl err \<Rightarrow> Inl (''failed to delete session: '' @ err)
      | Inr d' \<Rightarrow> Inr d')"

definition GetSession :: "db \<Rightarrow> string \<Rightarrow> string \<Rightarrow> string + Session" where
  "GetSession d sessionID domain =
     (case database_GetSession d sessionID of
        Inl err \<Rightarrow> Inl (''failed to get session: '' @ err)
      | Inr session \<Rightarrow>
          if Domain session \<noteq> domain then Inl ''session not found'' else Inr session)"

definition ExtendSession :: "db \<Rightarrow> string \<Rightarrow> time \<Rightarrow> string + db" where
  "ExtendSession d sessionID expiresAt =
     (case database_GetSession d sessionID of
        Inl err \<Rightarrow> Inl (''failed to get session: '' @ err)
      | Inr session \<Rightarrow>
          (case database_UpdateSession d (session\<lparr>ExpiresAt := expiresAt\<rparr>) of
             Inl err \<Rightarrow> Inl (''failed to update session: '' @ err)
           | Inr d' \<Rightarrow> Inr d'))"

definition sessionCookieName :: string where "sessionCookieName = ''smallweb-session''"
definition oauthCookieName :: string where "oauthCookieName = ''smallweb-oauth-store''"

text \<open>\<^verbatim>\<open>r.Header.Get\<close>, \<^verbatim>\<open>r.Cookie\<close> and \<^verbatim>\<open>Query().Get\<close>: the first value under the name.\<close>

definition Header_Get :: "(string \<times> string list) list \<Rightarrow> string \<Rightarrow> string" where
  "Header_Get h k = (case map_of h k of Some (v # _) \<Rightarrow> v | _ \<Rightarrow> [])"

definition Cookie :: "request \<Rightarrow> string \<Rightarrow> string option" where
  "Cookie r name = map_of (Cookies r) name"

definition Query_Get :: "request \<Rightarrow> string \<Rightarrow> string" where
  "Query_Get r k = (case map_of (Query r) k of None \<Rightarrow> [] | Some v \<Rightarrow> v)"

definition basic_realm :: string where
  "basic_realm = ''Basic realm='' @ [CHR 0x22] @ ''smallweb'' @ [CHR 0x22]"

definition bearer_realm :: string where
  "bearer_realm = ''Bearer realm='' @ [CHR 0x22] @ ''smallweb'' @ [CHR 0x22]"

definition login_redirect :: "request \<Rightarrow> string" where
  "login_redirect r = ''/_auth/login?redirect='' @ Path (URL r)"

definition expired_cookie :: "time \<Rightarrow> string \<Rightarrow> cookie" where
  "expired_cookie t p = \<lparr>Name = sessionCookieName, Value = [], Expires = t - 1 * Hour, CookiePath = p\<rparr>"

text \<open>
  The handler that \<^verbatim>\<open>Wrap(next, email)\<close> returns, applied to a request: its reply and
  the store afterwards.
\<close>

definition Wrap :: "auth_world \<Rightarrow> db \<Rightarrow> string \<Rightarrow> request \<Rightarrow> auth_reply \<times> db" where
  "Wrap aw d email r =
     (case BasicAuth r of
        Some (username, _) \<Rightarrow>
          (case parseToken aw username of
             Inl err \<Rightarrow> (Challenge basic_realm, d)
           | Inr (public, secret) \<Rightarrow>
               (case database_GetToken d public of
                  Inl err \<Rightarrow> (Challenge basic_realm, d)
                | Inr token \<Rightarrow>
                    (if \<not> bcrypt_matches aw (Hash token) secret
                     then (Challenge basic_realm, d)
                     else (Next, d))))
      | None \<Rightarrow>
     (let authorization = Header_Get (Header r) ''Authorization''
      in if strings_HasPrefix authorization ''Bearer '' then
          (case parseToken aw (strings_TrimPrefix authorization ''Bearer '') of
             Inl err \<Rightarrow> (Challenge bearer_realm, d)
           | Inr (public, secret) \<Rightarrow>
               (case database_GetToken d public of
                  Inl err \<Rightarrow> (Challenge bearer_realm, d)
                | Inr t \<Rightarrow>
                    (if \<not> bcrypt_matches aw (Hash t) secret
                     then (Challenge bearer_realm, d)
                     else (Next, d))))
      else if email = [] then (Challenge basic_realm, d)
      else if Path (URL r) = ''/_auth/login'' then (oauth_login aw r, d)
      else if Path (URL r) = ''/_auth/callback'' then
          (case oauth_callback aw r of
             Inl failed \<Rightarrow> (failed, d)
           | Inr (userEmail, redirect) \<Rightarrow>
               (case CreateSession aw d userEmail (Host r) of
                  Inl err \<Rightarrow> (HttpError ''Unauthorized'' StatusUnauthorized, d)
                | Inr (sessionID, d') \<Rightarrow>
                    (Redirect
                       [\<lparr>Name = oauthCookieName, Value = [], Expires = now aw 2 - 1 * Hour,
                         CookiePath = ''/''\<rparr>,
                        \<lparr>Name = sessionCookieName, Value = sessionID,
                         Expires = now aw 3 + 14 * 24 * Hour, CookiePath = ''/''\<rparr>]
                       redirect StatusSeeOther, d')))
      else if Path (URL r) = ''/_auth/logout'' then
          (case Cookie r sessionCookieName of
             None \<Rightarrow> (HttpError ''Unauthorized'' StatusUnauthorized, d)
           | Some v \<Rightarrow>
               (case DeleteSession d v of
                  Inl err \<Rightarrow> (HttpError ''Unauthorized'' StatusUnauthorized, d)
                | Inr d' \<Rightarrow>
                    (let redirect = Query_Get r ''redirect'';
                         redirect = (if redirect = [] then ''https://'' @ Host r @ ''/''
                                     else redirect)
                     in (Redirect [expired_cookie (now aw 0) ''/''] redirect StatusSeeOther, d'))))
      else
          (case Cookie r sessionCookieName of
             None \<Rightarrow> (Redirect [] (login_redirect r) StatusSeeOther, d)
           | Some v \<Rightarrow>
               (case GetSession d v (Host r) of
                  Inl err \<Rightarrow>
                    (Redirect [expired_cookie (now aw 0) []] (login_redirect r) StatusSeeOther, d)
                | Inr session \<Rightarrow>
                    (if time_After (now aw 0) (ExpiresAt session) then
                       (case DeleteSession d v of
                          Inl err \<Rightarrow>
                            (HttpError ''Internal Server Error'' StatusInternalServerError, d)
                        | Inr d' \<Rightarrow>
                            (Redirect [expired_cookie (now aw 1) []] (login_redirect r)
                               StatusSeeOther, d'))
                     else if Email session \<noteq> email then
                       (HttpError ''Unauthorized'' StatusUnauthorized, d)
                     else if time_After (now aw 1 + 7 * 24 * Hour) (ExpiresAt session) then
                       (case ExtendSession d v (now aw 2 + 14 * 24 * Hour) of
                          Inl err \<Rightarrow>
                            (HttpError ''Internal Server Error'' StatusInternalServerError, d)
                        | Inr d' \<Rightarrow> (NoReply, d'))
                     else (Next, d))))))"

subsection \<open>The dispatcher\<close>

record CronJob =
  Schedule :: string
  Args :: "string list"

record Config =
  Private :: bool
  PublicRoutes :: "string list"
  PrivateRoutes :: "string list"
  Crons :: "CronJob list"

record App =
  AppEntrypoint :: string
  Root :: string
  Config :: Config

text \<open>
  The configuration of the command and the packages it calls. \<open>glob_Compile\<close> is
  \<^verbatim>\<open>glob.Compile\<close>: \<open>None\<close> for a pattern that does not compile (where
  \<^verbatim>\<open>glob.MustCompile\<close> panics), otherwise the \<^verbatim>\<open>Match\<close> function of the compiled
  pattern. \<open>cron_Parse\<close> is \<^verbatim>\<open>parser.Parse\<close>: an error, or the schedule, given by its
  \<^verbatim>\<open>Next\<close> function. \<^verbatim>\<open>app.LoadApp\<close>, \<^verbatim>\<open>app.ListApps\<close> and the worker are packages
  outside these sources and are received as functions.
\<close>

record up_world =
  up_dir :: string
  up_domain :: string
  up_email :: string
  up_esc :: escaping
  LoadApp :: "string \<Rightarrow> string \<Rightarrow> string + App"
  ListApps :: "string \<Rightarrow> string + string list"
  glob_Compile :: "string \<Rightarrow> (string \<Rightarrow> bool) option"
  StartServer :: "App \<Rightarrow> string option"
  cron_Parse :: "string \<Rightarrow> string + (time \<Rightarrow> time)"
  worker_Command :: "App \<Rightarrow> string list \<Rightarrow> string + command"
  command_Run :: "command \<Rightarrow> string option"

datatype handler =
    WebdavHandler | CliHandler | DocsHandler | StaticHandler string | EditorHandler
  | WorkerHandler App

text \<open>
  The reply of the dispatcher: a redirect, a bare status, \<^verbatim>\<open>http.Error\<close> with status
  500, a panic of \<^verbatim>\<open>glob.MustCompile\<close>, or \<open>Serve wrapped h\<close>: the request is served by
  \<open>h\<close>, behind the authentication middleware when \<open>wrapped\<close>.
\<close>

datatype dispatch_reply =
    RedirectTo string int
  | Status int
  | ServerError string
  | GlobPanic
  | Serve bool handler

definition select_handler :: "up_world \<Rightarrow> App \<Rightarrow> string + handler" where
  "select_handler uw a =
     (if AppEntrypoint a = ''smallweb:webdav'' then Inr WebdavHandler
      else if AppEntrypoint a = ''smallweb:cli'' then Inr CliHandler
      else if AppEntrypoint a = ''smallweb:docs'' then Inr DocsHandler
      else if AppEntrypoint a = ''smallweb:static'' then Inr (StaticHandler (Root a))
      else if AppEntrypoint a = ''smallweb:editor'' then Inr EditorHandler
      else (case StartServer uw a of
              Some err \<Rightarrow> Inl err
            | None \<Rightarrow> Inr (WorkerHandler a)))"

text \<open>The two loops over the route lists; \<open>None\<close> is the panic of \<^verbatim>\<open>MustCompile\<close>.\<close>

fun public_routes ::
  "(string \<Rightarrow> (string \<Rightarrow> bool) option) \<Rightarrow> string list \<Rightarrow> string \<Rightarrow> bool \<Rightarrow> bool option" where
  "public_routes compile [] p isPrivateRoute = Some isPrivateRoute"
| "public_routes compile (publicRoute # rest) p isPrivateRoute =
     (case compile publicRoute of
        None \<Rightarrow> None
      | Some glob \<Rightarrow> public_routes compile rest p (if glob p then False else isPrivateRoute))"

fun private_routes ::
  "(string \<Rightarrow> (string \<Rightarrow> bool) option) \<Rightarrow> string list \<Rightarrow> string \<Rightarrow> bool \<Rightarrow> bool option" where
  "private_routes compile [] p isPrivateRoute = Some isPrivateRoute"
| "private_routes compile (privateRoute # rest) p isPrivateRoute =
     (case compile privateRoute of
        None \<Rightarrow> None
      | Some glob \<Rightarrow> private_routes compile rest p (if glob p then True else isPrivateRoute))"

definition isPrivateRoute :: "up_world \<Rightarrow> Config \<Rightarrow> string \<Rightarrow> bool option" where
  "isPrivateRoute uw c p =
     (case public_routes (glob_Compile uw) (PublicRoutes c) p (Private c) of
        None \<Rightarrow> None
      | Some b \<Rightarrow> private_routes (glob_Compile uw) (PrivateRoutes c) p b)"

definition dispatch :: "up_world \<Rightarrow> request \<Rightarrow> dispatch_reply" where
  "dispatch uw r =
     (if Host r = up_domain uw then
        RedirectTo
          (URL_String (up_esc uw) ((URL r)\<lparr>Scheme := ''https'', url.Host := ''www.'' @ up_domain uw\<rparr>))
          StatusTemporaryRedirect
      else
        (let appname = strings_TrimSuffix (Host r) (''.'' @ up_domain uw)
         in (case LoadApp uw (path_Join [up_dir uw, appname]) (up_domain uw) of
               Inl err \<Rightarrow> Status StatusNotFound
             | Inr a \<Rightarrow>
                 (case select_handler uw a of
                    Inl err \<Rightarrow> ServerError err
                  | Inr h \<Rightarrow>
                      (case isPrivateRoute uw (Config a) (Path (URL r)) of
                         None \<Rightarrow> GlobPanic
                       | Some private \<Rightarrow>
                           Serve (private \<or> strings_HasPrefix (Path (URL r)) ''/_auth'') h)))))"

subsection \<open>The cron driver\<close>

datatype job_outcome =
  ParseError string | NotDue | CommandError string | Ran command "string option"

datatype app_outcome = LoadError string | Jobs "job_outcome list"

text \<open>
  The body of the loop over \<^verbatim>\<open>a.Config.Crons\<close> for one entry: \<open>NotDue\<close> is the
  \<^verbatim>\<open>continue\<close> of the schedule test, \<open>CommandError\<close> the error of \<^verbatim>\<open>wk.Command\<close> (it
  is printed and nothing is run), and \<open>Ran c e\<close> is \<^verbatim>\<open>command.Run()\<close> of the command \<open>c\<close>
  with its result \<open>e\<close>.
  The test compares two \<^verbatim>\<open>time.Time\<close> values with \<^verbatim>\<open>!=\<close>; both carry the location of
  \<^verbatim>\<open>rounded\<close> and no monotonic reading, and the model compares the instants.
\<close>

definition run_job :: "up_world \<Rightarrow> time \<Rightarrow> App \<Rightarrow> CronJob \<Rightarrow> job_outcome" where
  "run_job uw rounded a job =
     (case cron_Parse uw (Schedule job) of
        Inl err \<Rightarrow> ParseError err
      | Inr sched \<Rightarrow>
          (if sched (rounded + (- 1 * Second)) \<noteq> rounded then NotDue
           else (case worker_Command uw a (Args job) of
                   Inl err \<Rightarrow> CommandError err
                 | Inr command \<Rightarrow> Ran command (command_Run uw command))))"

text \<open>
  The function registered under \<^verbatim>\<open>* * * * *\<close>, run with the clock reading \<open>t\<close>: for
  every app, in order, what happened to each of its cron entries, in order.
  When \<^verbatim>\<open>app.ListApps\<close> fails the error is printed and the loop still runs over the
  names returned with it, which the model takes to be none.
\<close>

definition tick :: "up_world \<Rightarrow> time \<Rightarrow> (string \<times> app_outcome) list" where
  "tick uw t =
     (let rounded = time_Truncate t Minute;
          apps = (case ListApps uw (up_dir uw) of Inl err \<Rightarrow> [] | Inr apps \<Rightarrow> apps)
      in map (\<lambda>name.
                (case LoadApp uw (path_Join [up_dir uw, name]) (up_domain uw) of
                   Inl err \<Rightarrow> (name, LoadError err)
                 | Inr a \<Rightarrow> (name, Jobs (map (run_job uw rounded a) (Crons (Config a))))))
             apps)"

section \<open>Concrete worlds and requests\<close>

text \<open>
  A root directory \<open>/www\<close> with the app \<open>blog\<close>: three of the thirteen candidate
  entrypoints exist, and both the root and the app have a \<open>.env\<close> file.
\<close>

definition fs_blog :: filesystem where
  "fs_blog =
     \<lparr>stat = (\<lambda>p. p \<in> {''/www/blog/mod.ts'', ''/www/blog/blog.js'', ''/www/blog/index.html'',
                         ''/www/.env'', ''/www/blog/.env''}),
      dotenv = (\<lambda>p. if p = ''/www/.env'' then Inr [''A'' \<mapsto> ''1'', ''B'' \<mapsto> ''2'']
                     else if p = ''/www/blog/.env'' then Inr [''B'' \<mapsto> ''3'', ''C'' \<mapsto> ''4'']
                     else Inl ''open: no such file or directory'')\<rparr>"

definition fs_none :: filesystem where
  "fs_none = \<lparr>stat = (\<lambda>p. False), dotenv = (\<lambda>p. Inl ''open: no such file or directory'')\<rparr>"

definition url_root :: url where
  "url_root = \<lparr>Scheme = [], Opaque = [], User = None, Host = [], Path = ''/'', RawPath = [],
               OmitHost = False, ForceQuery = False, RawQuery = [], Fragment = [],
               RawFragment = []\<rparr>"

definition esc_id :: escaping where
  "esc_id = \<lparr>escapeHost = (\<lambda>h. h), EscapedPath = Path, EscapedFragment = Fragment\<rparr>"

definition req_get :: "string \<Rightarrow> string \<Rightarrow> request" where
  "req_get h p =
     \<lparr>Method = ''GET'', URL = url_root\<lparr>Path := p\<rparr>, Host = h, TLS = False,
      Header = [(''Accept'', [''text/html'', ''text/plain'']), (''User-Agent'', [''curl''])],
      Body = Inr [], BasicAuth = None, Cookies = [], Query = []\<rparr>"

text \<open>A world in which every step before the child succeeds and the child behaves as \<open>run\<close>.\<close>

definition w_child :: "child_run \<Rightarrow> world" where
  "w_child run =
     \<lparr>fs = fs_blog, esc = esc_id, MkdirTemp = Inr ''/tmp/smallweb1'',
      denoExecutable = Inr ''/usr/bin/deno'', sandboxPath = ''/data/smallweb/sandbox.ts'',
      json_Encode = (\<lambda>i. Inr (req_Url (Req i))), run_child = (\<lambda>c. run),
      timestamp = ''2024-06-01T00:00:00Z'', duration = 1000,
      OpenFile = (\<lambda>p. None), Encode = (\<lambda>l. None)\<rparr>"

text \<open>The same world with the evaluator executable missing, and one without \<open>.logs\<close>.\<close>

definition w_nodeno :: world where
  "w_nodeno =
     (w_child \<lparr>state = StartFailed ''not reached'', combined = [],
               artifact = OpenError ''not reached''\<rparr>)
       \<lparr>denoExecutable := Inl ''exec: deno: executable file not found in $PATH''\<rparr>"

definition w_noencode :: world where
  "w_noencode =
     (w_child \<lparr>state = StartFailed ''not reached'', combined = [],
               artifact = OpenError ''not reached''\<rparr>)
       \<lparr>json_Encode := (\<lambda>i. Inl ''json: unsupported value'')\<rparr>"

definition w_nologs :: "child_run \<Rightarrow> world" where
  "w_nologs run =
     (w_child run)\<lparr>OpenFile := (\<lambda>p. Some ''open: no such file or directory'')\<rparr>"

definition run_undecodable :: child_run where
  "run_undecodable =
     \<lparr>state = Exited 0, combined = ''partial write'', artifact = DecodeError ''unexpected EOF''\<rparr>"

definition run_exit1 :: child_run where
  "run_exit1 =
     \<lparr>state = Exited 1, combined = ''error: boom'',
      artifact = OpenError ''open /tmp/smallweb1/response.json: no such file or directory''\<rparr>"

definition run_ok :: child_run where
  "run_ok =
     \<lparr>state = Exited 0, combined = ''log line'',
      artifact = Decoded \<lparr>res_Status = 200, res_Headers = [[''Content-Type'', ''text/plain'']],
                          res_Body = ''hello''\<rparr>\<rparr>"

definition run_status0 :: child_run where
  "run_status0 =
     \<lparr>state = Exited 0, combined = [],
      artifact = Decoded \<lparr>res_Status = 0, res_Headers = [], res_Body = ''hello''\<rparr>\<rparr>"

text \<open>
  The \<^verbatim>\<open>up\<close> command serving \<open>example.com\<close> from \<open>/www\<close>, where the only app is the
  directory \<open>a.b\<close>.
\<close>

definition app_docs :: App where
  "app_docs =
     \<lparr>AppEntrypoint = ''smallweb:docs'', Root = ''/www/a.b'',
      Config = \<lparr>Private = False, PublicRoutes = [], PrivateRoutes = [], Crons = []\<rparr>\<rparr>"

definition uw_ab :: up_world where
  "uw_ab =
     \<lparr>up_dir = ''/www'', up_domain = ''example.com'', up_email = [], up_esc = esc_id,
      LoadApp = (\<lambda>dir dom. if dir = ''/www/a.b'' then Inr app_docs else Inl ''app not found''),
      ListApps = (\<lambda>dir. Inr []),
      glob_Compile = (\<lambda>pat. Some (\<lambda>p. p = pat)),
      StartServer = (\<lambda>a. None),
      cron_Parse = (\<lambda>s. Inl ''bad schedule''),
      worker_Command = (\<lambda>a args. Inl ''no worker''),
      command_Run = (\<lambda>c. None)\<rparr>"

definition req_query :: request where
  "req_query =
     (req_get ''blog.example.test'' ''/hello'')
       \<lparr>URL := url_root\<lparr>Path := ''/hello'', RawQuery := ''q=1''\<rparr>, TLS := True,
        Body := Inr ''payload''\<rparr>"

text \<open>
  The authentication middleware with the token parser of the specification, a stand-in
  for bcrypt under which the hash of \<open>x\<close> is \<open>hash(x)\<close>, and a clock that reads \<open>t\<close> at
  the first call and one nanosecond more at each further call. The store holds one token,
  with public id \<open>pub\<close> and secret \<open>secret\<close>.
\<close>

definition aw_at :: "time \<Rightarrow> auth_world" where
  "aw_at t =
     \<lparr>parseToken = parseToken_spec,
      bcrypt_matches = (\<lambda>h secret. h = ''hash('' @ secret @ '')''),
      now = (\<lambda>k. t + int k),
      nanoid = Inr ''sid1'',
      oauth_login = (\<lambda>r. Redirect [] ''https://lastlogin.net/auth'' 303),
      oauth_callback = (\<lambda>r. Inl (HttpError ''Unauthorized'' 401))\<rparr>"

definition db_none :: db where
  "db_none = \<lparr>sessions = [], tokens = [''pub'' \<mapsto> \<lparr>Hash = ''hash(secret)''\<rparr>]\<rparr>"

text \<open>The session that a login of \<open>me@example.com\<close> at \<open>blog.example.com\<close> at time 0 creates.\<close>

definition session_one :: Session where
  "session_one =
     \<lparr>ID = ''sid1'', Email = ''me@example.com'', Domain = ''blog.example.com'',
      CreatedAt = 0, ExpiresAt = 1 + 14 * 24 * Hour\<rparr>"

definition db_one :: db where
  "db_one = db_none\<lparr>sessions := [session_one]\<rparr>"

definition req_cookie :: request where
  "req_cookie =
     (req_get ''blog.example.com'' ''/page'')\<lparr>Cookies := [(''smallweb-session'', ''sid1'')]\<rparr>"

definition req_basic :: "string \<Rightarrow> string \<Rightarrow> request" where
  "req_basic u p = (req_get ''blog.example.com'' ''/page'')\<lparr>BasicAuth := Some (u, p)\<rparr>"

text \<open>
  The \<^verbatim>\<open>up\<close> command serving \<open>example.com\<close> from \<open>/www\<close> with one app, \<open>blog\<close>: private,
  with three public routes, one private route and three cron entries. A glob here
  matches the one path equal to its pattern, and \<open>[\<close> does not compile. The schedule
  \<open>* * * * *\<close> is next due at the first minute boundary after the given instant and
  \<open>0 * * * *\<close> at the first hour boundary after it.
\<close>

definition app_blog :: App where
  "app_blog =
     \<lparr>AppEntrypoint = ''smallweb:static'', Root = ''/www/blog'',
      Config =
        \<lparr>Private = True, PublicRoutes = [''/open'', ''/admin'', ''/_auth/login''],
         PrivateRoutes = [''/admin''],
         Crons = [\<lparr>Schedule = ''* * * * *'', Args = [''refresh'']\<rparr>,
                  \<lparr>Schedule = ''0 * * * *'', Args = [''hourly'']\<rparr>,
                  \<lparr>Schedule = ''every minute'', Args = [''never'']\<rparr>]\<rparr>\<rparr>"

definition uw_blog :: up_world where
  "uw_blog =
     \<lparr>up_dir = ''/www'', up_domain = ''example.com'', up_email = ''me@example.com'',
      up_esc = esc_id,
      LoadApp = (\<lambda>dir dom. if dir = ''/www/blog'' then Inr app_blog else Inl ''app not found''),
      ListApps = (\<lambda>dir. Inr [''blog'', ''gone'']),
      glob_Compile = (\<lambda>pat. if pat = ''['' then None else Some (\<lambda>p. p = pat)),
      StartServer = (\<lambda>a. None),
      cron_Parse =
        (\<lambda>s. if s = ''* * * * *'' then Inr (\<lambda>t. (t div Minute + 1) * Minute)
             else if s = ''0 * * * *'' then Inr (\<lambda>t. (t div Hour + 1) * Hour)
             else Inl ''expected exactly 5 fields''),
      worker_Command = (\<lambda>a args. Inr \<lparr>argv = ''deno'' # args, Dir = Root a, Stdin = []\<rparr>),
      command_Run = (\<lambda>c. None)\<rparr>"

text \<open>
  The same command with a fourth cron entry, due every minute, for which the worker gives
  no command.
\<close>

definition app_cron :: App where
  "app_cron =
     app_blog\<lparr>Config := (Config app_blog)
       \<lparr>Crons := [\<lparr>Schedule = ''* * * * *'', Args = [''refresh'']\<rparr>,
                  \<lparr>Schedule = ''0 * * * *'', Args = [''hourly'']\<rparr>,
                  \<lparr>Schedule = ''* * * * *'', Args = [''broken'']\<rparr>,
                  \<lparr>Schedule = ''every minute'', Args = [''never'']\<rparr>]\<rparr>\<rparr>"

definition uw_cron :: up_world where
  "uw_cron =
     uw_blog
       \<lparr>LoadApp := (\<lambda>dir dom. if dir = ''/www/blog'' then Inr app_cron else Inl ''app not found''),
        worker_Command :=
          (\<lambda>a args. if args = [''broken''] then Inl ''exec: deno: executable file not found in $PATH''
                    else Inr \<lparr>argv = ''deno'' # args, Dir = Root a, Stdin = []\<rparr>)\<rparr>"

section \<open>Notions of the specification\<close>

text \<open>The leftmost label of a host: everything before its first dot.\<close>

definition leftmost_label :: "string \<Rightarrow> string" where
  "leftmost_label h = takeWhile (\<lambda>c. c \<noteq> CHR ''.'') h"

text \<open>
  What a \<open>.env\<close> file contributes to the environment: its bindings, none when the
  file is absent, or the error of parsing it.
\<close>

definition env_layer :: "filesystem \<Rightarrow> string \<Rightarrow> string + env" where
  "env_layer fsys p = (if exists fsys p then dotenv fsys p else Inr Map.empty)"

text \<open>
  A request that presents the session cookie \<open>v\<close> to the middleware configured with
  \<open>email\<close>: it carries no Basic credentials and no Bearer header, session login is
  enabled, and the path is none of the three \<open>/_auth\<close> endpoints.
\<close>

definition presents_session :: "string \<Rightarrow> request \<Rightarrow> string \<Rightarrow> bool" where
  "presents_session email r v =
     (BasicAuth r = None
      \<and> \<not> strings_HasPrefix (Header_Get (Header r) ''Authorization'') ''Bearer ''
      \<and> email \<noteq> []
      \<and> Path (URL r) \<noteq> ''/_auth/login''
      \<and> Path (URL r) \<noteq> ''/_auth/callback''
      \<and> Path (URL r) \<noteq> ''/_auth/logout''
      \<and> Cookie r sessionCookieName = Some v)"

text \<open>
  A credential verifies when it parses into a public id and a secret, a token is stored
  under the public id, and the secret matches the hash of the token.
\<close>

definition token_verifies :: "auth_world \<Rightarrow> db \<Rightarrow> string \<Rightarrow> bool" where
  "token_verifies aw d cred =
     (case parseToken aw cred of
        Inl err \<Rightarrow> False
      | Inr (public, secret) \<Rightarrow>
          (case tokens d public of
             None \<Rightarrow> False
           | Some t \<Rightarrow> bcrypt_matches aw (Hash t) secret))"

text \<open>
  Whether a route pattern matches a path, and the privacy the specification gives a path:
  private when a private route matches, else public when a public route matches, else
  the \<open>private\<close> flag of the configuration.
\<close>

definition route_matches :: "up_world \<Rightarrow> string \<Rightarrow> string \<Rightarrow> bool" where
  "route_matches uw route p = (case glob_Compile uw route of None \<Rightarrow> False | Some g \<Rightarrow> g p)"

definition effective_privacy :: "up_world \<Rightarrow> Config \<Rightarrow> string \<Rightarrow> bool" where
  "effective_privacy uw c p =
     (if list_ex (\<lambda>route. route_matches uw route p) (PrivateRoutes c) then True
      else if list_ex (\<lambda>route. route_matches uw route p) (PublicRoutes c) then False
      else Private c)"

text \<open>
  A cron entry fires in a tick when the schedule test lets it through: the worker is
  asked for the command of the entry, which is run when the worker gives one.
\<close>

definition fired :: "job_outcome \<Rightarrow> bool" where
  "fired out = (case out of CommandError err \<Rightarrow> True | Ran c res \<Rightarrow> True | _ \<Rightarrow> False)"

section \<open>Properties\<close>

subsection \<open>Entrypoint resolution\<close>

lemma try_extensions_find:
  "try_extensions fsys mk exts = find (exists fsys) (map mk exts)"
  by (induction exts) (simp_all add: Let_def)

lemma inferEntrypoint_find:
  "inferEntrypoint fsys root alias =
     (case find (exists fsys) (spec_candidates root alias) of
        None \<Rightarrow> Inl ''entrypoint not found''
      | Some p \<Rightarrow> Inr p)"
  by (simp add: inferEntrypoint_def try_extensions_find extensions_def spec_candidates_def Let_def
        split: option.splits)

lemma find_first:
  "i < length xs \<Longrightarrow> P (xs ! i) \<Longrightarrow> (\<forall>j<i. \<not> P (xs ! j)) \<Longrightarrow> find P xs = Some (xs ! i)"
proof (induction xs arbitrary: i)
  case Nil
  then show ?case by simp
next
  case (Cons x xs)
  show ?case
  proof (cases i)
    case 0
    with Cons.prems show ?thesis by simp
  next
    case (Suc k)
    with Cons.prems have "\<not> P x" by auto
    moreover have "\<forall>j<k. \<not> P (xs ! j)"
    proof (intro allI impI)
      fix j assume "j < k"
      then have "Suc j < i" using Suc by simp
      with Cons.prems(3) have "\<not> P ((x # xs) ! Suc j)" by blast
      then show "\<not> P (xs ! j)" by simp
    qed
    then have "find P xs = Some (xs ! k)"
      using Cons.IH [of k] Cons.prems Suc by simp
    ultimately show ?thesis using Suc by simp
  qed
qed

lemma find_none: "(\<forall>x\<in>set xs. \<not> P x) \<Longrightarrow> find P xs = None"
  by (induction xs) simp_all

lemma length_spec_candidates: "length (spec_candidates root alias) = 13"
  by (simp add: spec_candidates_def)

lemma spec_candidates_blog:
  "spec_candidates ''/www'' ''blog'' =
     [''/www/blog.js'', ''/www/blog.ts'', ''/www/blog.jsx'', ''/www/blog.tsx'',
      ''/www/blog/mod.js'', ''/www/blog/mod.ts'', ''/www/blog/mod.jsx'', ''/www/blog/mod.tsx'',
      ''/www/blog/blog.js'', ''/www/blog/blog.ts'', ''/www/blog/blog.jsx'',
      ''/www/blog/blog.tsx'', ''/www/blog/index.html'']"
  by code_simp

text \<open>
  C5. \<^verbatim>\<open>inferEntrypoint\<close> is a function of the root directory, the alias and the files
  that exist. With the thirteen candidates listed in the order of the specification
  (\<open>rootDir/alias.{js,ts,jsx,tsx}\<close>, \<open>rootDir/alias/mod.{js,ts,jsx,tsx}\<close>,
  \<open>rootDir/alias/alias.{js,ts,jsx,tsx}\<close>, \<open>rootDir/alias/index.html\<close>), it returns the
  candidate at position \<open>i\<close> whenever that one exists and none before it does, whatever
  exists after it; when no candidate exists it returns the error
  \<open>entrypoint not found\<close>.
\<close>

theorem inferEntrypoint_first_candidate:
  "(let cs = spec_candidates root alias
    in (\<forall>i<length cs. exists fsys (cs ! i) \<and> (\<forall>j<i. \<not> exists fsys (cs ! j))
            \<longrightarrow> inferEntrypoint fsys root alias = Inr (cs ! i))
       \<and> ((\<forall>p\<in>set cs. \<not> exists fsys p)
            \<longrightarrow> inferEntrypoint fsys root alias = Inl ''entrypoint not found''))"
  by (auto simp: Let_def inferEntrypoint_find find_first find_none)

text \<open>
  In \<open>fs_blog\<close> the candidates \<open>blog/mod.ts\<close>, \<open>blog/blog.js\<close> and \<open>blog/index.html\<close>
  exist; the first of them in the list, at position 5, is returned. In the empty file
  system nothing is found.
\<close>

theorem inferEntrypoint_first_candidate_witness:
  "inferEntrypoint fs_blog ''/www'' ''blog'' = Inr ''/www/blog/mod.ts''
   \<and> inferEntrypoint fs_none ''/www'' ''blog'' = Inl ''entrypoint not found''"
proof -
  have a: "\<forall>j<5. \<not> exists fs_blog (spec_candidates ''/www'' ''blog'' ! j)"
    unfolding spec_candidates_blog by (simp add: exists_def fs_blog_def less_Suc_eq eval_nat_numeral)
  have b: "exists fs_blog (spec_candidates ''/www'' ''blog'' ! 5)"
    unfolding spec_candidates_blog by (simp add: exists_def fs_blog_def)
  have c: "\<forall>p\<in>set (spec_candidates ''/www'' ''blog''). \<not> exists fs_none p"
    by (simp add: exists_def fs_none_def)
  from inferEntrypoint_first_candidate [of "''/www''" "''blog''" fs_blog] a b
  have "inferEntrypoint fs_blog ''/www'' ''blog'' = Inr (spec_candidates ''/www'' ''blog'' ! 5)"
    by (simp add: length_spec_candidates Let_def)
  moreover from inferEntrypoint_first_candidate [of "''/www''" "''blog''" fs_none] c
  have "inferEntrypoint fs_none ''/www'' ''blog'' = Inl ''entrypoint not found''"
    by (simp add: Let_def)
  ultimately show ?thesis unfolding spec_candidates_blog by simp
qed

subsection \<open>The app a host names\<close>

lemma hd_split_from_dot:
  "hd (split_from ''.'' cur s) = cur @ takeWhile (\<lambda>c. c \<noteq> CHR ''.'') s"
proof (induction "''.''" cur s rule: split_from.induct)
  case (1 cur s)
  show ?case
  proof (cases s)
    case Nil
    then show ?thesis by (simp add: split_from.simps)
  next
    case (Cons c cs)
    show ?thesis
    proof (cases "c = CHR ''.''")
      case True
      with Cons show ?thesis by (subst split_from.simps) simp
    next
      case False
      with Cons 1(2) show ?thesis by (subst split_from.simps) simp
    qed
  qed
qed

lemma alias_leftmost_label: "hd (strings_Split h ''.'') = leftmost_label h"
  by (simp add: strings_Split_def hd_split_from_dot leftmost_label_def)

lemma leftmost_label_no_dot: "CHR ''.'' \<notin> set h \<Longrightarrow> leftmost_label h = h"
  by (auto simp: leftmost_label_def)

lemma leftmost_label_append:
  "CHR ''.'' \<notin> set l \<Longrightarrow> leftmost_label (l @ ''.'' @ dm) = l"
  by (simp add: leftmost_label_def takeWhile_append)

lemma TrimSuffix_append: "strings_TrimSuffix (l @ suf) suf = l"
  by (simp add: strings_TrimSuffix_def suffix_def)

lemma TrimSuffix_no_suffix: "\<not> suffix suf h \<Longrightarrow> strings_TrimSuffix h suf = h"
  by (simp add: strings_TrimSuffix_def)

lemma leftmost_label_no_dots: "CHR ''.'' \<notin> set (leftmost_label h)"
  unfolding leftmost_label_def using set_takeWhileD by fastforce

lemma leftmost_label_eq_iff: "leftmost_label h = h \<longleftrightarrow> CHR ''.'' \<notin> set h"
proof
  assume "leftmost_label h = h"
  with leftmost_label_no_dots [of h] show "CHR ''.'' \<notin> set h" by simp
next
  assume "CHR ''.'' \<notin> set h"
  then show "leftmost_label h = h" by (rule leftmost_label_no_dot)
qed

lemma leftmost_label_prefix_iff:
  "leftmost_label (l @ ''.'' @ dm) = l \<longleftrightarrow> CHR ''.'' \<notin> set l"
proof
  assume "leftmost_label (l @ ''.'' @ dm) = l"
  with leftmost_label_no_dots [of "l @ ''.'' @ dm"] show "CHR ''.'' \<notin> set l" by simp
next
  assume "CHR ''.'' \<notin> set l"
  then show "leftmost_label (l @ ''.'' @ dm) = l" by (rule leftmost_label_append)
qed

text \<open>
  C8, counterexample. The \<^verbatim>\<open>up\<close> dispatcher serving \<open>example.com\<close> receives a request
  for the host \<open>a.b.example.com\<close>, whose leftmost label is \<open>a\<close>. It loads the app
  \<open>a.b\<close> (the only one there is, and it is served); a request for \<open>a.example.com\<close>
  finds no app.
\<close>

theorem appname_counterexample:
  "dispatch uw_ab (req_get ''a.b.example.com'' ''/'') = Serve False DocsHandler
   \<and> dispatch uw_ab (req_get ''a.example.com'' ''/'') = Status 404
   \<and> leftmost_label (Host (req_get ''a.b.example.com'' ''/'')) = ''a''"
  by code_simp

text \<open>
  C8, amended. In the legacy handler (\<^verbatim>\<open>Handler.ServeHTTP\<close>) the alias
  \<^verbatim>\<open>strings.Split(host, ".")[0]\<close> is the leftmost label of the host, the whole host when
  it has no dot, and it is the alias the entrypoint is resolved for. In the \<^verbatim>\<open>up\<close>
  dispatcher the app name is the host with the suffix \<open>.domain\<close> removed, and the app is
  loaded from the directory of that name: for a host \<open>l.domain\<close> it is \<open>l\<close>, which is the
  leftmost label of the host if and only if \<open>l\<close> has no dot; for a host that does not end
  in \<open>.domain\<close> it is the whole host, which is its leftmost label if and only if the host
  has no dot.
\<close>

theorem alias_and_appname:
  "hd (strings_Split h ''.'') = leftmost_label h
   \<and> (inferEntrypoint (fs w) root (leftmost_label (Host r)) = Inl err
      \<longrightarrow> ServeHTTP w root r = fail500 err)
   \<and> (CHR ''.'' \<notin> set h \<longrightarrow> leftmost_label h = h)
   \<and> (Host r \<noteq> up_domain uw
        \<and> LoadApp uw (path_Join [up_dir uw, strings_TrimSuffix (Host r) (''.'' @ up_domain uw)])
             (up_domain uw) = Inl e
      \<longrightarrow> dispatch uw r = Status StatusNotFound)
   \<and> strings_TrimSuffix (l @ ''.'' @ dm) (''.'' @ dm) = l
   \<and> (\<not> suffix (''.'' @ dm) h \<longrightarrow> strings_TrimSuffix h (''.'' @ dm) = h)
   \<and> (strings_TrimSuffix (l @ ''.'' @ dm) (''.'' @ dm) = leftmost_label (l @ ''.'' @ dm)
        \<longleftrightarrow> CHR ''.'' \<notin> set l)
   \<and> (\<not> suffix (''.'' @ dm) h
      \<longrightarrow> (strings_TrimSuffix h (''.'' @ dm) = leftmost_label h \<longleftrightarrow> CHR ''.'' \<notin> set h))"
proof -
  have 1: "hd (strings_Split h ''.'') = leftmost_label h" by (rule alias_leftmost_label)
  have 2: "ServeHTTP w root r = fail500 err"
    if "inferEntrypoint (fs w) root (leftmost_label (Host r)) = Inl err"
    using that by (simp add: ServeHTTP_def alias_leftmost_label)
  have 3: "leftmost_label h = h" if "CHR ''.'' \<notin> set h"
    using that by (rule leftmost_label_no_dot)
  have 4: "dispatch uw r = Status StatusNotFound"
    if "Host r \<noteq> up_domain uw
        \<and> LoadApp uw (path_Join [up_dir uw, strings_TrimSuffix (Host r) (''.'' @ up_domain uw)])
             (up_domain uw) = Inl e"
    using that by (simp add: dispatch_def)
  have 5: "strings_TrimSuffix (l @ ''.'' @ dm) (''.'' @ dm) = l"
    using TrimSuffix_append [of l "''.'' @ dm"] by simp
  have 6: "strings_TrimSuffix h (''.'' @ dm) = h" if "\<not> suffix (''.'' @ dm) h"
    using that by (rule TrimSuffix_no_suffix)
  have 7: "strings_TrimSuffix (l @ ''.'' @ dm) (''.'' @ dm) = leftmost_label (l @ ''.'' @ dm)
        \<longleftrightarrow> CHR ''.'' \<notin> set l"
    unfolding 5 using leftmost_label_prefix_iff [of l dm] by auto
  have 8: "strings_TrimSuffix h (''.'' @ dm) = leftmost_label h \<longleftrightarrow> CHR ''.'' \<notin> set h"
    if "\<not> suffix (''.'' @ dm) h"
    unfolding 6 [OF that] using leftmost_label_eq_iff [of h] by auto
  from 1 2 3 4 5 6 7 8 show ?thesis by blast
qed

theorem alias_and_appname_witness:
  "hd (strings_Split ''localhost'' ''.'') = leftmost_label ''localhost''
   \<and> inferEntrypoint (fs (w_child run_exit1)) ''/www''
         (leftmost_label (Host (req_get ''shop.example.test'' ''/''))) = Inl ''entrypoint not found''
   \<and> ServeHTTP (w_child run_exit1) ''/www'' (req_get ''shop.example.test'' ''/'')
       = fail500 ''entrypoint not found''
   \<and> CHR ''.'' \<notin> set ''localhost'' \<and> leftmost_label ''localhost'' = ''localhost''
   \<and> Host (req_get ''a.example.com'' ''/'') \<noteq> up_domain uw_ab
   \<and> LoadApp uw_ab
         (path_Join [up_dir uw_ab,
            strings_TrimSuffix (Host (req_get ''a.example.com'' ''/'')) (''.'' @ up_domain uw_ab)])
         (up_domain uw_ab) = Inl ''app not found''
   \<and> dispatch uw_ab (req_get ''a.example.com'' ''/'') = Status StatusNotFound
   \<and> \<not> suffix (''.'' @ ''example.com'') ''blog.other.test''
   \<and> strings_TrimSuffix ''blog.other.test'' (''.'' @ ''example.com'') = ''blog.other.test''
   \<and> strings_TrimSuffix ''blog.other.test'' (''.'' @ ''example.com'')
       \<noteq> leftmost_label ''blog.other.test''
   \<and> CHR ''.'' \<notin> set ''blog''
   \<and> strings_TrimSuffix (''blog'' @ ''.'' @ ''example.com'') (''.'' @ ''example.com'')
       = leftmost_label (''blog'' @ ''.'' @ ''example.com'')
   \<and> CHR ''.'' \<in> set ''a.b''
   \<and> strings_TrimSuffix (''a.b'' @ ''.'' @ ''example.com'') (''.'' @ ''example.com'') = ''a.b''
   \<and> strings_TrimSuffix (''a.b'' @ ''.'' @ ''example.com'') (''.'' @ ''example.com'')
       \<noteq> leftmost_label (''a.b'' @ ''.'' @ ''example.com'')"
proof -
  have 1: "inferEntrypoint (fs (w_child run_exit1)) ''/www''
         (leftmost_label (Host (req_get ''shop.example.test'' ''/''))) = Inl ''entrypoint not found''"
    by code_simp
  have 2: "CHR ''.'' \<notin> set ''localhost''" by simp
  have 3: "Host (req_get ''a.example.com'' ''/'') \<noteq> up_domain uw_ab
   \<and> LoadApp uw_ab
         (path_Join [up_dir uw_ab,
            strings_TrimSuffix (Host (req_get ''a.example.com'' ''/'')) (''.'' @ up_domain uw_ab)])
         (up_domain uw_ab) = Inl ''app not found''"
    by code_simp
  have 4: "\<not> suffix (''.'' @ ''example.com'') ''blog.other.test''" by code_simp
  have 5: "CHR ''.'' \<notin> set ''blog''" "CHR ''.'' \<in> set ''a.b''" "CHR ''.'' \<in> set ''blog.other.test''"
    by simp_all
  note t1 = alias_and_appname [where w = "w_child run_exit1" and root = "''/www''"
      and r = "req_get ''shop.example.test'' ''/''" and err = "''entrypoint not found''"
      and h = "''localhost''" and l = "''blog''" and dm = "''example.com''"]
  note t2 = alias_and_appname [where r = "req_get ''a.example.com'' ''/''" and uw = uw_ab
      and e = "''app not found''" and h = "''blog.other.test''" and dm = "''example.com''"
      and l = "''a.b''"]
  from t1 1 2 5 have a: "hd (strings_Split ''localhost'' ''.'') = leftmost_label ''localhost''
      \<and> ServeHTTP (w_child run_exit1) ''/www'' (req_get ''shop.example.test'' ''/'')
        = fail500 ''entrypoint not found''
      \<and> leftmost_label ''localhost'' = ''localhost''
      \<and> strings_TrimSuffix (''blog'' @ ''.'' @ ''example.com'') (''.'' @ ''example.com'')
        = leftmost_label (''blog'' @ ''.'' @ ''example.com'')"
    by blast
  from t2 3 4 5 have b: "dispatch uw_ab (req_get ''a.example.com'' ''/'') = Status StatusNotFound
      \<and> strings_TrimSuffix ''blog.other.test'' (''.'' @ ''example.com'') = ''blog.other.test''
      \<and> strings_TrimSuffix ''blog.other.test'' (''.'' @ ''example.com'')
          \<noteq> leftmost_label ''blog.other.test''
      \<and> strings_TrimSuffix (''a.b'' @ ''.'' @ ''example.com'') (''.'' @ ''example.com'') = ''a.b''
      \<and> strings_TrimSuffix (''a.b'' @ ''.'' @ ''example.com'') (''.'' @ ''example.com'')
          \<noteq> leftmost_label (''a.b'' @ ''.'' @ ''example.com'')"
    by blast
  show ?thesis using a b 1 2 3 4 5 by blast
qed

subsection \<open>The evaluator invocation\<close>

text \<open>
  C1, counterexample. The child exits with 0 after printing \<open>partial write\<close>, and the
  artifact does not decode (\<open>unexpected EOF\<close>). The handler replies 500 with the
  decoder's message as the body, not with the output of the child.
\<close>

theorem undecodable_artifact_counterexample:
  "reply (ServeHTTP (w_child run_undecodable) ''/www'' (req_get ''blog.example.test'' ''/hello''))
     = Written (http_Error ''unexpected EOF'' 500)
   \<and> state run_undecodable = Exited 0
   \<and> artifact run_undecodable = DecodeError ''unexpected EOF''
   \<and> combined run_undecodable = ''partial write''
   \<and> body (http_Error ''unexpected EOF'' 500) \<noteq> ''partial write''"
  by code_simp

lemma run_failed_iff: "run_failed st \<longleftrightarrow> st \<noteq> Exited 0"
  by (cases st) (simp_all add: run_failed_def)

lemma write_response_invalid_status:
  "res_Status res < 100 \<or> res_Status res > 999 \<Longrightarrow> \<exists>msg. write_response res = Panicked msg"
  by (auto simp: write_response_def split: option.splits)

text \<open>
  C1, amended. The request has an entrypoint other than \<open>index.html\<close>, its environment
  loads, it serializes and the temporary directory is made. When the evaluator
  executable is not found, or the input does not encode, the reply is \<^verbatim>\<open>http.Error\<close>
  with status 500 and the message of that error; no child is run and nothing is logged.
  Otherwise the child is run. When it cannot be started or exits with a code other than
  0, the reply is \<^verbatim>\<open>http.Error\<close> with status 500 and the combined output of the child
  as the message, so the body is that output followed by a newline, and \<^verbatim>\<open>writeLog\<close> is
  called with a record without response. When the child exits with 0 and the artifact
  cannot be opened or decoded, the reply is status 500 with the message of that error and
  nothing is logged. Only when the child exits with 0 and the artifact decodes is the
  decoded response written and logged; writing it panics when its status is outside
  100..999.
\<close>

theorem evaluator_outcome:
  assumes "inferEntrypoint (fs w) root (hd (strings_Split (Host r) ''.'')) = Inr entrypoint"
    and "path_Base entrypoint \<noteq> ''index.html''"
    and "loadEnv (fs w) root entrypoint = Inr env"
    and "serializeRequest (esc w) r = Inr req"
    and "MkdirTemp w = Inr tempdir"
  shows "(let input = \<lparr>Req = req, Entrypoint = entrypoint, Env = env,
                        Output = path_Join [tempdir, ''response.json'']\<rparr>
          in (denoExecutable w = Inl e \<longrightarrow> ServeHTTP w root r = fail500 e)
           \<and> (denoExecutable w = Inr deno \<and> json_Encode w input = Inl e
                \<longrightarrow> ServeHTTP w root r = fail500 e)
           \<and> (denoExecutable w = Inr deno \<and> json_Encode w input = Inr stdin \<longrightarrow>
                (let run = run_child w
                             \<lparr>argv = [deno, ''run'', ''-A'', ''--unstable-kv'', sandboxPath w],
                              Dir = path_Dir entrypoint, Stdin = stdin\<rparr>;
                     logPath = path_Join [root, ''.logs'', hd (strings_Split (Host r) ''.'') @ ''.jsonl'']
                 in (state run \<noteq> Exited 0 \<longrightarrow>
                       ServeHTTP w root r =
                         \<lparr>reply = Written (http_Error (combined run) 500),
                          log_writes =
                            snd (writeLog w
                              \<lparr>log_Request = req, log_Response = None,
                               log_Timestamp = timestamp w, log_Entrypoint = entrypoint,
                               log_Duration = duration w, log_Logs = combined run\<rparr> logPath)\<rparr>)
                  \<and> (state run = Exited 0 \<longrightarrow>
                       ServeHTTP w root r =
                         (case artifact run of
                            OpenError err \<Rightarrow> fail500 err
                          | DecodeError err \<Rightarrow> fail500 err
                          | Decoded res \<Rightarrow>
                              \<lparr>reply = write_response res,
                               log_writes =
                                 snd (writeLog w
                                   \<lparr>log_Request = req, log_Response = Some res,
                                    log_Timestamp = timestamp w, log_Entrypoint = entrypoint,
                                    log_Duration = duration w, log_Logs = combined run\<rparr>
                                   logPath)\<rparr>)))))
       \<and> fail500 msg = \<lparr>reply = Written (http_Error msg 500), log_writes = []\<rparr>
       \<and> code (http_Error msg 500) = 500
       \<and> body (http_Error msg 500) = msg @ [CHR 0x0A]
       \<and> (res_Status res < 100 \<or> res_Status res > 999
            \<longrightarrow> (\<exists>panic. write_response res = Panicked panic))"
proof -
  have a: "ServeHTTP w root r = fail500 e" if "denoExecutable w = Inl e"
    using assms that by (simp add: ServeHTTP_def Let_def)
  have b: "ServeHTTP w root r = fail500 e"
    if "denoExecutable w = Inr deno
        \<and> json_Encode w \<lparr>Req = req, Entrypoint = entrypoint, Env = env,
                          Output = path_Join [tempdir, ''response.json'']\<rparr> = Inl e"
    using assms that by (simp add: ServeHTTP_def Let_def)
  have c: "ServeHTTP w root r =
      (if run_failed (state (run_child w
                             \<lparr>argv = [deno, ''run'', ''-A'', ''--unstable-kv'', sandboxPath w],
                              Dir = path_Dir entrypoint, Stdin = stdin\<rparr>))
       then \<lparr>reply = Written (http_Error (combined (run_child w
                             \<lparr>argv = [deno, ''run'', ''-A'', ''--unstable-kv'', sandboxPath w],
                              Dir = path_Dir entrypoint, Stdin = stdin\<rparr>)) StatusInternalServerError),
             log_writes =
               snd (writeLog w
                 \<lparr>log_Request = req, log_Response = None, log_Timestamp = timestamp w,
                  log_Entrypoint = entrypoint, log_Duration = duration w,
                  log_Logs = combined (run_child w
                             \<lparr>argv = [deno, ''run'', ''-A'', ''--unstable-kv'', sandboxPath w],
                              Dir = path_Dir entrypoint, Stdin = stdin\<rparr>)\<rparr>
                 (path_Join [root, ''.logs'', hd (strings_Split (Host r) ''.'') @ ''.jsonl'']))\<rparr>
       else (case artifact (run_child w
                             \<lparr>argv = [deno, ''run'', ''-A'', ''--unstable-kv'', sandboxPath w],
                              Dir = path_Dir entrypoint, Stdin = stdin\<rparr>) of
               OpenError err \<Rightarrow> fail500 err
             | DecodeError err \<Rightarrow> fail500 err
             | Decoded res \<Rightarrow>
                 \<lparr>reply = write_response res,
                  log_writes =
                    snd (writeLog w
                      \<lparr>log_Request = req, log_Response = Some res,
                       log_Timestamp = timestamp w, log_Entrypoint = entrypoint,
                       log_Duration = duration w, log_Logs = combined (run_child w
                             \<lparr>argv = [deno, ''run'', ''-A'', ''--unstable-kv'', sandboxPath w],
                              Dir = path_Dir entrypoint, Stdin = stdin\<rparr>)\<rparr>
                      (path_Join [root, ''.logs'', hd (strings_Split (Host r) ''.'') @ ''.jsonl'']))\<rparr>))"
    if "denoExecutable w = Inr deno
        \<and> json_Encode w \<lparr>Req = req, Entrypoint = entrypoint, Env = env,
                          Output = path_Join [tempdir, ''response.json'']\<rparr> = Inr stdin"
    using assms that by (simp add: ServeHTTP_def Let_def)
  have d: "fail500 msg = \<lparr>reply = Written (http_Error msg 500), log_writes = []\<rparr>"
    "code (http_Error msg 500) = 500" "body (http_Error msg 500) = msg @ [CHR 0x0A]"
    by (simp_all add: fail500_def StatusInternalServerError_def http_Error_def)
  have p: "\<exists>panic. write_response res = Panicked panic"
    if "res_Status res < 100 \<or> res_Status res > 999"
    using that by (rule write_response_invalid_status)
  show ?thesis
    unfolding Let_def
    using a b c d p
    by (simp add: run_failed_iff StatusInternalServerError_def)
qed


lemma blog_entrypoint:
  "inferEntrypoint fs_blog ''/www'' (hd (strings_Split ''blog.example.test'' ''.''))
     = Inr ''/www/blog/mod.ts''"
  by code_simp

lemma blog_paths:
  "path_Base ''/www/blog/mod.ts'' \<noteq> ''index.html''"
  "path_Join [''/www'', ''.env''] = ''/www/.env''"
  "path_Join [''/www/blog'', ''.env''] = ''/www/blog/.env''"
  "filepath_Ext ''/www/blog/mod.ts'' = ''.ts''"
  "path_Dir ''/www/blog/mod.ts'' = ''/www/blog''"
  "path_Join [''/tmp/smallweb1'', ''response.json''] = ''/tmp/smallweb1/response.json''"
  "path_Join [''/www'', ''.logs'', hd (strings_Split ''blog.example.test'' ''.'') @ ''.jsonl'']
     = ''/www/.logs/blog.jsonl''"
  by code_simp+

lemma blog_env:
  "loadEnv fs_blog ''/www'' ''/www/blog/mod.ts''
     = Inr ([''A'' \<mapsto> ''1'', ''B'' \<mapsto> ''2''] ++ [''B'' \<mapsto> ''3'', ''C'' \<mapsto> ''4''])"
  by (simp add: loadEnv_def blog_paths fs_blog_def exists_def Let_def)

lemma blog_request:
  "serializeRequest esc_id (req_get ''blog.example.test'' ''/hello'') =
     Inr \<lparr>req_Url = ''http://blog.example.test/hello'', req_Method = ''GET'',
          req_Headers = [[''Accept'', ''text/html''], [''User-Agent'', ''curl'']],
          req_Body = []\<rparr>"
  by code_simp

text \<open>
  In \<open>fs_blog\<close> a request for \<open>blog.example.test\<close> reaches the invocation. With the
  executable missing, or the input not encodable, the reply is the error of that step. A
  child that exits with 1 after printing \<open>error: boom\<close> gives status 500 with that output
  and a newline as the body, and the record is appended when the log file opens and
  not when \<open>.logs\<close> is missing. A child that exits with 0 and leaves a decodable artifact
  gives the response of the artifact; an artifact with status 0 makes the handler panic.
\<close>

theorem evaluator_outcome_witness:
  "ServeHTTP w_nodeno ''/www'' (req_get ''blog.example.test'' ''/hello'')
     = fail500 ''exec: deno: executable file not found in $PATH''
   \<and> ServeHTTP w_noencode ''/www'' (req_get ''blog.example.test'' ''/hello'')
     = fail500 ''json: unsupported value''
   \<and> ServeHTTP (w_child run_exit1) ''/www'' (req_get ''blog.example.test'' ''/hello'')
     = \<lparr>reply = Written (http_Error ''error: boom'' 500),
        log_writes =
          [(''/www/.logs/blog.jsonl'',
            \<lparr>log_Request =
               \<lparr>req_Url = ''http://blog.example.test/hello'', req_Method = ''GET'',
                req_Headers = [[''Accept'', ''text/html''], [''User-Agent'', ''curl'']],
                req_Body = []\<rparr>,
             log_Response = None, log_Timestamp = ''2024-06-01T00:00:00Z'',
             log_Entrypoint = ''/www/blog/mod.ts'', log_Duration = 1000,
             log_Logs = ''error: boom''\<rparr>)]\<rparr>
   \<and> body (http_Error ''error: boom'' 500) = ''error: boom'' @ [CHR 0x0A]
   \<and> ServeHTTP (w_nologs run_exit1) ''/www'' (req_get ''blog.example.test'' ''/hello'')
     = \<lparr>reply = Written (http_Error ''error: boom'' 500), log_writes = []\<rparr>
   \<and> reply (ServeHTTP (w_child run_ok) ''/www'' (req_get ''blog.example.test'' ''/hello''))
     = Written \<lparr>code = 200, header_sets = [(''Content-Type'', ''text/plain'')], body = ''hello''\<rparr>
   \<and> map (log_Response \<circ> snd)
         (log_writes (ServeHTTP (w_child run_ok) ''/www'' (req_get ''blog.example.test'' ''/hello'')))
     = [Some \<lparr>res_Status = 200, res_Headers = [[''Content-Type'', ''text/plain'']],
               res_Body = ''hello''\<rparr>]
   \<and> res_Status \<lparr>res_Status = 0, res_Headers = [], res_Body = ''hello''\<rparr> < 100
   \<and> ServeHTTP (w_child run_status0) ''/www'' (req_get ''blog.example.test'' ''/hello'')
     = \<lparr>reply = Panicked ''invalid WriteHeader code 0'',
        log_writes =
          [(''/www/.logs/blog.jsonl'',
            \<lparr>log_Request =
               \<lparr>req_Url = ''http://blog.example.test/hello'', req_Method = ''GET'',
                req_Headers = [[''Accept'', ''text/html''], [''User-Agent'', ''curl'']],
                req_Body = []\<rparr>,
             log_Response = Some \<lparr>res_Status = 0, res_Headers = [], res_Body = ''hello''\<rparr>,
             log_Timestamp = ''2024-06-01T00:00:00Z'',
             log_Entrypoint = ''/www/blog/mod.ts'', log_Duration = 1000,
             log_Logs = []\<rparr>)]\<rparr>"
proof -
  have host: "Host (req_get ''blog.example.test'' ''/hello'') = ''blog.example.test''"
    by (simp add: req_get_def)
  have wr: "write_response \<lparr>res_Status = 200, res_Headers = [[''Content-Type'', ''text/plain'']],
                          res_Body = ''hello''\<rparr>
      = Written \<lparr>code = 200, header_sets = [(''Content-Type'', ''text/plain'')], body = ''hello''\<rparr>"
    by (simp add: write_response_def)
  have w0: "write_response \<lparr>res_Status = 0, res_Headers = [], res_Body = ''hello''\<rparr>
      = Panicked ''invalid WriteHeader code 0''"
    by code_simp
  note t = evaluator_outcome [where root = "''/www''" and r = "req_get ''blog.example.test'' ''/hello''"
      and entrypoint = "''/www/blog/mod.ts''"
      and env = "[''A'' \<mapsto> ''1'', ''B'' \<mapsto> ''2''] ++ [''B'' \<mapsto> ''3'', ''C'' \<mapsto> ''4'']"
      and req = "\<lparr>req_Url = ''http://blog.example.test/hello'', req_Method = ''GET'',
          req_Headers = [[''Accept'', ''text/html''], [''User-Agent'', ''curl'']],
          req_Body = []\<rparr>"
      and tempdir = "''/tmp/smallweb1''" and deno = "''/usr/bin/deno''"
      and stdin = "''http://blog.example.test/hello''"]
  have 1: "ServeHTTP w_nodeno ''/www'' (req_get ''blog.example.test'' ''/hello'')
     = fail500 ''exec: deno: executable file not found in $PATH''"
    using t [where w = w_nodeno and e = "''exec: deno: executable file not found in $PATH''"]
    by (simp add: w_nodeno_def w_child_def host blog_entrypoint blog_paths blog_env blog_request Let_def)
  have 2: "ServeHTTP w_noencode ''/www'' (req_get ''blog.example.test'' ''/hello'')
     = fail500 ''json: unsupported value''"
    using t [where w = w_noencode and e = "''json: unsupported value''"]
    by (simp add: w_noencode_def w_child_def host blog_entrypoint blog_paths blog_env blog_request Let_def)
  have 3: "ServeHTTP (w_child run_exit1) ''/www'' (req_get ''blog.example.test'' ''/hello'')
     = \<lparr>reply = Written (http_Error ''error: boom'' 500),
        log_writes =
          [(''/www/.logs/blog.jsonl'',
            \<lparr>log_Request =
               \<lparr>req_Url = ''http://blog.example.test/hello'', req_Method = ''GET'',
                req_Headers = [[''Accept'', ''text/html''], [''User-Agent'', ''curl'']],
                req_Body = []\<rparr>,
             log_Response = None, log_Timestamp = ''2024-06-01T00:00:00Z'',
             log_Entrypoint = ''/www/blog/mod.ts'', log_Duration = 1000,
             log_Logs = ''error: boom''\<rparr>)]\<rparr>
     \<and> body (http_Error ''error: boom'' 500) = ''error: boom'' @ [CHR 0x0A]"
    using t [where w = "w_child run_exit1" and msg = "''error: boom''"]
    by (simp add: w_child_def run_exit1_def host blog_entrypoint blog_paths blog_env blog_request
        Let_def writeLog_def)
  have 4: "ServeHTTP (w_nologs run_exit1) ''/www'' (req_get ''blog.example.test'' ''/hello'')
     = \<lparr>reply = Written (http_Error ''error: boom'' 500), log_writes = []\<rparr>"
    using t [where w = "w_nologs run_exit1"]
    by (simp add: w_nologs_def w_child_def run_exit1_def host blog_entrypoint blog_paths blog_env
        blog_request Let_def writeLog_def)
  have 5: "ServeHTTP (w_child run_ok) ''/www'' (req_get ''blog.example.test'' ''/hello'')
     = \<lparr>reply = Written \<lparr>code = 200, header_sets = [(''Content-Type'', ''text/plain'')], body = ''hello''\<rparr>,
        log_writes =
          [(''/www/.logs/blog.jsonl'',
            \<lparr>log_Request =
               \<lparr>req_Url = ''http://blog.example.test/hello'', req_Method = ''GET'',
                req_Headers = [[''Accept'', ''text/html''], [''User-Agent'', ''curl'']],
                req_Body = []\<rparr>,
             log_Response = Some \<lparr>res_Status = 200, res_Headers = [[''Content-Type'', ''text/plain'']],
               res_Body = ''hello''\<rparr>,
             log_Timestamp = ''2024-06-01T00:00:00Z'',
             log_Entrypoint = ''/www/blog/mod.ts'', log_Duration = 1000,
             log_Logs = ''log line''\<rparr>)]\<rparr>"
    using t [where w = "w_child run_ok"]
    by (simp add: w_child_def run_ok_def host blog_entrypoint blog_paths blog_env blog_request
        Let_def writeLog_def wr)
  have 6: "ServeHTTP (w_child run_status0) ''/www'' (req_get ''blog.example.test'' ''/hello'')
     = \<lparr>reply = Panicked ''invalid WriteHeader code 0'',
        log_writes =
          [(''/www/.logs/blog.jsonl'',
            \<lparr>log_Request =
               \<lparr>req_Url = ''http://blog.example.test/hello'', req_Method = ''GET'',
                req_Headers = [[''Accept'', ''text/html''], [''User-Agent'', ''curl'']],
                req_Body = []\<rparr>,
             log_Response = Some \<lparr>res_Status = 0, res_Headers = [], res_Body = ''hello''\<rparr>,
             log_Timestamp = ''2024-06-01T00:00:00Z'',
             log_Entrypoint = ''/www/blog/mod.ts'', log_Duration = 1000,
             log_Logs = []\<rparr>)]\<rparr>"
    using t [where w = "w_child run_status0"]
    by (simp add: w_child_def run_status0_def host blog_entrypoint blog_paths blog_env blog_request
        Let_def writeLog_def w0)
  from 1 2 3 4 5 6 show ?thesis by simp
qed


subsection \<open>Environment composition\<close>

lemma Ext_index_html: "filepath_Ext (d @ ''index.html'') = ''.html''"
  by (simp add: filepath_Ext_def)

text \<open>
  C6. An entrypoint named \<open>index.html\<close> gives the empty environment. For any other
  entrypoint whose \<open>.env\<close> files parse, where \<open>rootEnv\<close> are the bindings of
  \<open>rootDir/.env\<close> and \<open>dirEnv\<close> those of the \<open>.env\<close> beside the entrypoint (none for an
  absent file), the composed environment is \<open>rootEnv ++ dirEnv\<close>: a key bound in the
  app-local file has the app-local value, also when the root file binds it, and every
  other key has the value of the root file. With both files absent the result is the
  empty environment and not an error.
\<close>

theorem loadEnv_layers:
  "loadEnv fsys root (d @ ''index.html'') = Inr Map.empty
   \<and> (filepath_Ext e \<noteq> ''.html''
        \<and> env_layer fsys (path_Join [root, ''.env'']) = Inr rootEnv
        \<and> env_layer fsys (path_Join [path_Dir e, ''.env'']) = Inr dirEnv
      \<longrightarrow> loadEnv fsys root e = Inr (rootEnv ++ dirEnv)
          \<and> (\<forall>k v. dirEnv k = Some v \<longrightarrow> (rootEnv ++ dirEnv) k = Some v)
          \<and> (\<forall>k. dirEnv k = None \<longrightarrow> (rootEnv ++ dirEnv) k = rootEnv k))
   \<and> (filepath_Ext e \<noteq> ''.html''
        \<and> \<not> exists fsys (path_Join [root, ''.env''])
        \<and> \<not> exists fsys (path_Join [path_Dir e, ''.env''])
      \<longrightarrow> loadEnv fsys root e = Inr Map.empty)"
proof -
  have html: "loadEnv fsys root (d @ ''index.html'') = Inr Map.empty"
    by (simp add: loadEnv_def Ext_index_html)
  have m: "(\<forall>k v. dirEnv k = Some v \<longrightarrow> (rootEnv ++ dirEnv) k = Some v)
          \<and> (\<forall>k. dirEnv k = None \<longrightarrow> (rootEnv ++ dirEnv) k = rootEnv k)"
    by (simp add: map_add_def)
  have layers: "loadEnv fsys root e = Inr (rootEnv ++ dirEnv)"
    if h: "filepath_Ext e \<noteq> ''.html''
        \<and> env_layer fsys (path_Join [root, ''.env'']) = Inr rootEnv
        \<and> env_layer fsys (path_Join [path_Dir e, ''.env'']) = Inr dirEnv"
  proof (cases "path_Join [path_Dir e, ''.env''] = path_Join [root, ''.env'']")
    case True
    with h have "Inr dirEnv = (Inr rootEnv :: string + env)" by metis
    then have same: "dirEnv = rootEnv" by simp
    from h True have "loadEnv fsys root e = Inr rootEnv"
      by (auto simp: loadEnv_def env_layer_def Let_def split: if_splits)
    moreover have "rootEnv ++ rootEnv = rootEnv"
      by (simp add: map_add_def fun_eq_iff split: option.splits)
    ultimately show ?thesis using same by simp
  next
    case False
    with h show ?thesis
      by (auto simp: loadEnv_def env_layer_def Let_def split: if_splits)
  qed
  have absent: "loadEnv fsys root e = Inr Map.empty"
    if "filepath_Ext e \<noteq> ''.html''
        \<and> \<not> exists fsys (path_Join [root, ''.env''])
        \<and> \<not> exists fsys (path_Join [path_Dir e, ''.env''])"
    using that by (simp add: loadEnv_def Let_def)
  from html m layers absent show ?thesis by blast
qed

lemma blog_paths2:
  "path_Join [''/www'', ''.env''] = ''/www/.env''"
  "path_Dir ''/www/blog/mod.ts'' = ''/www/blog''"
  "path_Join [''/www/blog'', ''.env''] = ''/www/blog/.env''"
  "filepath_Ext ''/www/blog/mod.ts'' = ''.ts''"
  by code_simp+

text \<open>
  The root file binds \<open>A=1, B=2\<close> and the app file \<open>B=3, C=4\<close>: the evaluator sees
  \<open>A=1, B=3, C=4\<close>.
\<close>

theorem loadEnv_layers_witness:
  "loadEnv fs_blog ''/www'' (''/www/blog/'' @ ''index.html'') = Inr Map.empty
   \<and> loadEnv fs_blog ''/www'' ''/www/blog/mod.ts''
       = Inr ([''A'' \<mapsto> ''1'', ''B'' \<mapsto> ''2''] ++ [''B'' \<mapsto> ''3'', ''C'' \<mapsto> ''4''])
   \<and> ([''A'' \<mapsto> ''1'', ''B'' \<mapsto> ''2''] ++ [''B'' \<mapsto> ''3'', ''C'' \<mapsto> ''4'']) ''A'' = Some ''1''
   \<and> ([''A'' \<mapsto> ''1'', ''B'' \<mapsto> ''2''] ++ [''B'' \<mapsto> ''3'', ''C'' \<mapsto> ''4'']) ''B'' = Some ''3''
   \<and> ([''A'' \<mapsto> ''1'', ''B'' \<mapsto> ''2''] ++ [''B'' \<mapsto> ''3'', ''C'' \<mapsto> ''4'']) ''C'' = Some ''4''
   \<and> loadEnv fs_none ''/www'' ''/www/blog/mod.ts'' = Inr Map.empty"
proof -
  have l1: "env_layer fs_blog (path_Join [''/www'', ''.env'']) = Inr [''A'' \<mapsto> ''1'', ''B'' \<mapsto> ''2'']"
    by (simp add: env_layer_def blog_paths2 exists_def fs_blog_def)
  have l2: "env_layer fs_blog (path_Join [path_Dir ''/www/blog/mod.ts'', ''.env''])
      = Inr [''B'' \<mapsto> ''3'', ''C'' \<mapsto> ''4'']"
    by (simp add: env_layer_def blog_paths2 exists_def fs_blog_def)
  have l3: "\<not> exists fs_none (path_Join [''/www'', ''.env''])"
    "\<not> exists fs_none (path_Join [path_Dir ''/www/blog/mod.ts'', ''.env''])"
    by (simp_all add: exists_def fs_none_def)
  have x: "filepath_Ext ''/www/blog/mod.ts'' \<noteq> ''.html''"
    by (simp add: blog_paths2)
  note t1 = loadEnv_layers [where fsys = fs_blog and root = "''/www''" and d = "''/www/blog/''"
      and e = "''/www/blog/mod.ts''" and rootEnv = "[''A'' \<mapsto> ''1'', ''B'' \<mapsto> ''2'']"
      and dirEnv = "[''B'' \<mapsto> ''3'', ''C'' \<mapsto> ''4'']"]
  note t2 = loadEnv_layers [where fsys = fs_none and root = "''/www''" and e = "''/www/blog/mod.ts''"]
  from t1 have a1: "loadEnv fs_blog ''/www'' (''/www/blog/'' @ ''index.html'') = Inr Map.empty"
    by (rule conjunct1)
  from t1 l1 l2 x have a2: "loadEnv fs_blog ''/www'' ''/www/blog/mod.ts''
       = Inr ([''A'' \<mapsto> ''1'', ''B'' \<mapsto> ''2''] ++ [''B'' \<mapsto> ''3'', ''C'' \<mapsto> ''4''])"
    by blast
  have a3: "([''A'' \<mapsto> ''1'', ''B'' \<mapsto> ''2''] ++ [''B'' \<mapsto> ''3'', ''C'' \<mapsto> ''4'']) ''A'' = Some ''1''"
    "([''A'' \<mapsto> ''1'', ''B'' \<mapsto> ''2''] ++ [''B'' \<mapsto> ''3'', ''C'' \<mapsto> ''4'']) ''B'' = Some ''3''"
    "([''A'' \<mapsto> ''1'', ''B'' \<mapsto> ''2''] ++ [''B'' \<mapsto> ''3'', ''C'' \<mapsto> ''4'']) ''C'' = Some ''4''"
    by simp_all
  from t2 l3 x have b: "loadEnv fs_none ''/www'' ''/www/blog/mod.ts'' = Inr Map.empty"
    by blast
  from a1 a2 a3 b show ?thesis by (intro conjI)
qed

subsection \<open>Request serialization\<close>

lemma serialize_headers_ok:
  "\<forall>(k, v)\<in>set h. v \<noteq> [] \<Longrightarrow> serialize_headers h = Some (map (\<lambda>(k, v). [k, hd v]) h)"
proof (induction h)
  case Nil
  then show ?case by simp
next
  case (Cons a h)
  obtain k v where a: "a = (k, v)" by (cases a)
  with Cons.prems have "v \<noteq> []" by simp
  then obtain v0 vs where "v = v0 # vs" by (cases v) auto
  with a Cons show ?case by simp
qed

lemma URL_String_plain:
  assumes "Opaque u = []" "User u = None" "Fragment u = []" "url.Host u \<noteq> []" "Scheme u \<noteq> []"
  shows "URL_String e u =
           Scheme u @ ''://'' @ escapeHost e (url.Host u)
           @ (if EscapedPath e u \<noteq> [] \<and> hd (EscapedPath e u) \<noteq> CHR ''/'' then ''/'' else [])
           @ EscapedPath e u
           @ (if ForceQuery u \<or> RawQuery u \<noteq> [] then ''?'' @ RawQuery u else [])"
  using assms by (simp add: URL_String_def Let_def)

text \<open>
  C7. For a request whose headers each have a value and whose body can be read,
  \<^verbatim>\<open>serializeRequest\<close> returns the method, all the bytes of the body, and one pair per
  entry of the header map, in the order the map is traversed, holding the name and the
  first value. The url is \<^verbatim>\<open>String()\<close> of the request's URL with the host of the request
  and the scheme \<open>https\<close> when the transport is TLS, \<open>http\<close> otherwise; for a URL
  without opaque part, user and fragment this is \<open>scheme://host\<close>, the escaped path (after
  a slash when it does not start with one), and \<open>?query\<close> when there is a query.
\<close>

theorem serializeRequest_shape:
  assumes "\<forall>(k, v)\<in>set (Header r). v \<noteq> []" and "Body r = Inr b"
  shows "(let scheme = (if TLS r then ''https'' else ''http'');
              u = (URL r)\<lparr>url.Host := Host r, Scheme := scheme\<rparr>
          in serializeRequest e r =
               Inr \<lparr>req_Url = URL_String e u, req_Method = Method r,
                    req_Headers = map (\<lambda>(k, v). [k, hd v]) (Header r), req_Body = b\<rparr>
             \<and> (Opaque (URL r) = [] \<and> User (URL r) = None \<and> Fragment (URL r) = []
                  \<and> Host r \<noteq> []
                \<longrightarrow> URL_String e u =
                      scheme @ ''://'' @ escapeHost e (Host r)
                      @ (if EscapedPath e u \<noteq> [] \<and> hd (EscapedPath e u) \<noteq> CHR ''/''
                         then ''/'' else [])
                      @ EscapedPath e u
                      @ (if ForceQuery (URL r) \<or> RawQuery (URL r) \<noteq> []
                         then ''?'' @ RawQuery (URL r) else [])))"
proof -
  have h: "serialize_headers (Header r) = Some (map (\<lambda>(k, v). [k, hd v]) (Header r))"
    using assms(1) by (rule serialize_headers_ok)
  have s: "serializeRequest e r =
      Inr \<lparr>req_Url = URL_String e ((URL r)\<lparr>url.Host := Host r,
                                          Scheme := (if TLS r then ''https'' else ''http'')\<rparr>),
           req_Method = Method r,
           req_Headers = map (\<lambda>(k, v). [k, hd v]) (Header r), req_Body = b\<rparr>"
    using assms(2) h by (simp add: serializeRequest_def Let_def)
  have u: "Opaque (URL r) = [] \<and> User (URL r) = None \<and> Fragment (URL r) = [] \<and> Host r \<noteq> []
     \<Longrightarrow> URL_String e ((URL r)\<lparr>url.Host := Host r, Scheme := (if TLS r then ''https'' else ''http'')\<rparr>) =
        (if TLS r then ''https'' else ''http'') @ ''://'' @ escapeHost e (Host r)
                      @ (if EscapedPath e ((URL r)\<lparr>url.Host := Host r, Scheme := (if TLS r then ''https'' else ''http'')\<rparr>) \<noteq> [] \<and> hd (EscapedPath e ((URL r)\<lparr>url.Host := Host r, Scheme := (if TLS r then ''https'' else ''http'')\<rparr>)) \<noteq> CHR ''/''
                         then ''/'' else [])
                      @ EscapedPath e ((URL r)\<lparr>url.Host := Host r, Scheme := (if TLS r then ''https'' else ''http'')\<rparr>)
                      @ (if ForceQuery (URL r) \<or> RawQuery (URL r) \<noteq> []
                         then ''?'' @ RawQuery (URL r) else [])"
    by (subst URL_String_plain) simp_all
  show ?thesis unfolding Let_def using s u by blast
qed


theorem serializeRequest_shape_witness:
  "serializeRequest esc_id req_query =
     Inr \<lparr>req_Url = ''https://blog.example.test/hello?q=1'', req_Method = ''GET'',
          req_Headers = [[''Accept'', ''text/html''], [''User-Agent'', ''curl'']],
          req_Body = ''payload''\<rparr>"
proof -
  have h: "\<forall>(k, v)\<in>set (Header req_query). v \<noteq> []"
    by (simp add: req_query_def req_get_def)
  have b: "Body req_query = Inr ''payload''"
    by (simp add: req_query_def)
  have u: "Opaque (URL req_query) = [] \<and> User (URL req_query) = None
      \<and> Fragment (URL req_query) = [] \<and> Host req_query \<noteq> []"
    by (simp add: req_query_def req_get_def url_root_def)
  from serializeRequest_shape [OF h b, of esc_id] u
  show ?thesis
    by (simp add: Let_def req_query_def req_get_def url_root_def esc_id_def)
qed

subsection \<open>The authentication middleware\<close>

lemma find_ID: "find (\<lambda>x. ID x = sid) rows = Some s \<Longrightarrow> ID s = sid"
  by (induction rows) (auto split: if_splits)

lemma GetSession_Inr:
  "GetSession d sid host = Inr s
     \<longleftrightarrow> find (\<lambda>x. ID x = sid) (sessions d) = Some s \<and> Domain s = host"
  by (auto simp: GetSession_def database_GetSession_def split: option.splits)

lemma find_replace:
  "find (\<lambda>x. ID x = sid) rows = Some s \<Longrightarrow> ID s' = sid
     \<Longrightarrow> find (\<lambda>x. ID x = sid) (map (\<lambda>x. if ID x = sid then s' else x) rows) = Some s'"
  by (induction rows) (auto split: if_splits)

lemma ExtendSession_found:
  assumes "find (\<lambda>x. ID x = sid) (sessions d) = Some s"
  shows "ExtendSession d sid t =
           Inr (d\<lparr>sessions := map (\<lambda>x. if ID x = sid then s\<lparr>ExpiresAt := t\<rparr> else x) (sessions d)\<rparr>)"
  using assms find_ID [OF assms]
  by (simp add: ExtendSession_def database_GetSession_def database_UpdateSession_def)

text \<open>
  C3. A request presents a session cookie, the session is found for the host of the
  request, it has not expired at the first reading of the clock, and its e-mail address
  is the configured one. When \<open>ExpiresAt\<close> is less than 7 days after the second reading
  of the clock, the middleware stores the third reading plus 14 days as the new
  \<open>ExpiresAt\<close> of that session and returns with nothing written and the next handler not
  called. When \<open>ExpiresAt\<close> is 7 days or more away, the next handler is called and the
  store is unchanged.
\<close>

theorem sliding_expiry:
  assumes "presents_session email r v"
    and "GetSession d v (Host r) = Inr s"
    and "\<not> time_After (now aw 0) (ExpiresAt s)"
    and "Email s = email"
  shows "(let extended = s\<lparr>ExpiresAt := now aw 2 + 14 * 24 * Hour\<rparr>;
              d' = d\<lparr>sessions := map (\<lambda>x. if ID x = v then extended else x) (sessions d)\<rparr>
          in (ExpiresAt s - now aw 1 < 7 * 24 * Hour
                \<longrightarrow> Wrap aw d email r = (NoReply, d')
                    \<and> GetSession d' v (Host r) = Inr extended)
           \<and> (ExpiresAt s - now aw 1 \<ge> 7 * 24 * Hour
                \<longrightarrow> Wrap aw d email r = (Next, d)))"
proof -
  from assms(2) have f: "find (\<lambda>x. ID x = v) (sessions d) = Some s" and dm: "Domain s = Host r"
    by (simp_all add: GetSession_Inr)
  from f have id: "ID s = v" by (rule find_ID)
  have branch: "Wrap aw d email r =
      (if time_After (now aw 1 + 7 * 24 * Hour) (ExpiresAt s) then
         (case ExtendSession d v (now aw 2 + 14 * 24 * Hour) of
            Inl err \<Rightarrow> (HttpError ''Internal Server Error'' StatusInternalServerError, d)
          | Inr d' \<Rightarrow> (NoReply, d'))
       else (Next, d))"
    using assms by (simp add: Wrap_def presents_session_def Let_def)
  have near: "time_After (now aw 1 + 7 * 24 * Hour) (ExpiresAt s)
      \<longleftrightarrow> ExpiresAt s - now aw 1 < 7 * 24 * Hour"
    by (auto simp: time_After_def)
  have get: "GetSession
      (d\<lparr>sessions := map (\<lambda>x. if ID x = v then s\<lparr>ExpiresAt := now aw 2 + 14 * 24 * Hour\<rparr> else x)
                       (sessions d)\<rparr>) v (Host r)
      = Inr (s\<lparr>ExpiresAt := now aw 2 + 14 * 24 * Hour\<rparr>)"
    using f id dm by (simp add: GetSession_Inr find_replace)
  show ?thesis
    unfolding Let_def branch near using get
    by (simp add: ExtendSession_found [OF f])
qed

text \<open>
  The session of \<open>db_one\<close> expires on day 14. A request on day 10 extends it to day 24
  and gets no reply; a request on day 1 is passed to the next handler.
\<close>

theorem sliding_expiry_witness:
  "Wrap (aw_at (10 * 24 * Hour)) db_one ''me@example.com'' req_cookie
     = (NoReply, db_one\<lparr>sessions := [session_one\<lparr>ExpiresAt := 10 * 24 * Hour + 2 + 14 * 24 * Hour\<rparr>]\<rparr>)
   \<and> Wrap (aw_at (24 * Hour)) db_one ''me@example.com'' req_cookie = (Next, db_one)"
proof -
  have p: "presents_session ''me@example.com'' req_cookie ''sid1''"
    by (simp add: presents_session_def req_cookie_def req_get_def url_root_def Header_Get_def
        strings_HasPrefix_def Cookie_def sessionCookieName_def)
  have g: "GetSession db_one ''sid1'' (Host req_cookie) = Inr session_one"
    by (simp add: GetSession_def database_GetSession_def db_one_def session_one_def
        req_cookie_def req_get_def)
  have e: "Email session_one = ''me@example.com''"
    by (simp add: session_one_def)
  have x1: "\<not> time_After (now (aw_at (10 * 24 * Hour)) 0) (ExpiresAt session_one)"
    by (simp add: time_After_def aw_at_def session_one_def Hour_def Minute_def Second_def)
  have x2: "\<not> time_After (now (aw_at (24 * Hour)) 0) (ExpiresAt session_one)"
    by (simp add: time_After_def aw_at_def session_one_def Hour_def Minute_def Second_def)
  have n1: "ExpiresAt session_one - now (aw_at (10 * 24 * Hour)) 1 < 7 * 24 * Hour"
    by (simp add: aw_at_def session_one_def Hour_def Minute_def Second_def)
  have n2: "ExpiresAt session_one - now (aw_at (24 * Hour)) 1 \<ge> 7 * 24 * Hour"
    by (simp add: aw_at_def session_one_def Hour_def Minute_def Second_def)
  from sliding_expiry [OF p g x1 e] n1
  have 1: "Wrap (aw_at (10 * 24 * Hour)) db_one ''me@example.com'' req_cookie
     = (NoReply, db_one\<lparr>sessions := [session_one\<lparr>ExpiresAt := 10 * 24 * Hour + 2 + 14 * 24 * Hour\<rparr>]\<rparr>)"
    by (simp add: Let_def db_one_def session_one_def aw_at_def)
  from sliding_expiry [OF p g x2 e] n2
  have 2: "Wrap (aw_at (24 * Hour)) db_one ''me@example.com'' req_cookie = (Next, db_one)"
    by (simp add: Let_def)
  from 1 2 show ?thesis by (intro conjI)
qed

text \<open>
  C10. When the request carries Basic credentials, the reply of the middleware is a
  function of the user name alone: the next handler is called when the user name
  verifies as a \<open>publicId.secret\<close> credential, the Basic challenge is sent otherwise, and
  the store is unchanged. Two requests with the same Basic user name get the same
  outcome, whatever their passwords.
\<close>

theorem basic_password_ignored:
  "(BasicAuth r = Some (u, p)
      \<longrightarrow> Wrap aw d email r = ((if token_verifies aw d u then Next else Challenge basic_realm), d))
   \<and> (BasicAuth r1 = Some (u, p1) \<and> BasicAuth r2 = Some (u, p2)
      \<longrightarrow> Wrap aw d email r1 = Wrap aw d email r2)"
proof -
  have a: "Wrap aw d email r = ((if token_verifies aw d u then Next else Challenge basic_realm), d)"
    if "BasicAuth r = Some (u, p)" for r p
    using that
    by (auto simp: Wrap_def token_verifies_def database_GetToken_def
        split: sum.splits option.splits prod.splits)
  from a [of r p] a [of r1 p1] a [of r2 p2] show ?thesis by simp
qed

text \<open>
  With the token \<open>pub.secret\<close> stored: the user name \<open>pub.secret\<close> passes with the
  password \<open>x\<close> as with \<open>hunter2\<close>, and the user name \<open>pub.wrong\<close> is challenged even
  with the password \<open>secret\<close>.
\<close>

theorem basic_password_ignored_witness:
  "Wrap (aw_at 0) db_one ''me@example.com'' (req_basic ''pub.secret'' ''x'') = (Next, db_one)
   \<and> Wrap (aw_at 0) db_one ''me@example.com'' (req_basic ''pub.secret'' ''x'')
       = Wrap (aw_at 0) db_one ''me@example.com'' (req_basic ''pub.secret'' ''hunter2'')
   \<and> Wrap (aw_at 0) db_one ''me@example.com'' (req_basic ''pub.wrong'' ''secret'')
       = (Challenge basic_realm, db_one)"
proof -
  have v: "token_verifies (aw_at 0) db_one ''pub.secret''"
    "\<not> token_verifies (aw_at 0) db_one ''pub.wrong''"
    by (simp_all add: token_verifies_def aw_at_def parseToken_spec_def db_one_def db_none_def Let_def)
  have b: "BasicAuth (req_basic u p) = Some (u, p)" for u p
    by (simp add: req_basic_def)
  note t = basic_password_ignored [where aw = "aw_at 0" and d = db_one and email = "''me@example.com''"]
  from t [where r = "req_basic ''pub.secret'' ''x''" and u = "''pub.secret''" and p = "''x''"
      and ?r1.0 = "req_basic ''pub.secret'' ''x''" and ?p1.0 = "''x''"
      and ?r2.0 = "req_basic ''pub.secret'' ''hunter2''" and ?p2.0 = "''hunter2''"] v b
  have 1: "Wrap (aw_at 0) db_one ''me@example.com'' (req_basic ''pub.secret'' ''x'') = (Next, db_one)
   \<and> Wrap (aw_at 0) db_one ''me@example.com'' (req_basic ''pub.secret'' ''x'')
       = Wrap (aw_at 0) db_one ''me@example.com'' (req_basic ''pub.secret'' ''hunter2'')"
    by fastforce
  from t [where r = "req_basic ''pub.wrong'' ''secret''" and u = "''pub.wrong''" and p = "''secret''"] v b
  have 2: "Wrap (aw_at 0) db_one ''me@example.com'' (req_basic ''pub.wrong'' ''secret'')
       = (Challenge basic_realm, db_one)"
    by simp
  from 1 2 show ?thesis by blast
qed

subsection \<open>The dispatcher\<close>

lemma public_routes_closed:
  "\<forall>route\<in>set rs. compile route \<noteq> None \<Longrightarrow>
     public_routes compile rs p b =
       Some (if list_ex (\<lambda>route. case compile route of None \<Rightarrow> False | Some g \<Rightarrow> g p) rs
             then False else b)"
  by (induction rs arbitrary: b) auto

lemma private_routes_closed:
  "\<forall>route\<in>set rs. compile route \<noteq> None \<Longrightarrow>
     private_routes compile rs p b =
       Some (if list_ex (\<lambda>route. case compile route of None \<Rightarrow> False | Some g \<Rightarrow> g p) rs
             then True else b)"
  by (induction rs arbitrary: b) auto

lemma isPrivateRoute_closed:
  assumes "\<forall>route\<in>set (PublicRoutes c) \<union> set (PrivateRoutes c). glob_Compile uw route \<noteq> None"
  shows "isPrivateRoute uw c p = Some (effective_privacy uw c p)"
proof -
  from assms have pub: "\<forall>route\<in>set (PublicRoutes c). glob_Compile uw route \<noteq> None"
    and priv: "\<forall>route\<in>set (PrivateRoutes c). glob_Compile uw route \<noteq> None"
    by auto
  show ?thesis
    by (simp add: isPrivateRoute_def public_routes_closed [OF pub] private_routes_closed [OF priv]
        effective_privacy_def route_matches_def)
qed

text \<open>
  C4. For a request that reaches the privacy decision (the host is not the apex domain,
  the app loads and a handler is selected) and a configuration whose route patterns
  compile, the two loops leave \<open>isPrivateRoute\<close> at: true when a private route matches
  the path, else false when a public route matches it, else the \<open>private\<close> flag of the
  configuration. The handler is wrapped in the authentication middleware when that value
  is true or the path starts with \<open>/_auth\<close>; so every path under \<open>/_auth/\<close> is served
  behind the middleware whatever the route lists say.
\<close>

theorem privacy_resolution:
  assumes "\<forall>route\<in>set (PublicRoutes (Config a)) \<union> set (PrivateRoutes (Config a)).
             glob_Compile uw route \<noteq> None"
    and "Host r \<noteq> up_domain uw"
    and "LoadApp uw (path_Join [up_dir uw, strings_TrimSuffix (Host r) (''.'' @ up_domain uw)])
           (up_domain uw) = Inr a"
    and "select_handler uw a = Inr h"
  shows "isPrivateRoute uw (Config a) (Path (URL r))
           = Some (effective_privacy uw (Config a) (Path (URL r)))
       \<and> dispatch uw r =
           Serve (effective_privacy uw (Config a) (Path (URL r))
                  \<or> strings_HasPrefix (Path (URL r)) ''/_auth'') h
       \<and> (prefix ''/_auth/'' (Path (URL r)) \<longrightarrow> dispatch uw r = Serve True h)"
proof -
  have p: "isPrivateRoute uw (Config a) (Path (URL r))
           = Some (effective_privacy uw (Config a) (Path (URL r)))"
    using assms(1) by (rule isPrivateRoute_closed)
  have d: "dispatch uw r =
           Serve (effective_privacy uw (Config a) (Path (URL r))
                  \<or> strings_HasPrefix (Path (URL r)) ''/_auth'') h"
    using assms(2-4) p by (simp add: dispatch_def Let_def)
  have "strings_HasPrefix (Path (URL r)) ''/_auth''" if "prefix ''/_auth/'' (Path (URL r))"
    using that by (auto simp: strings_HasPrefix_def prefix_def)
  with p d show ?thesis by simp
qed


text \<open>
  The app \<open>blog\<close> is private, with public routes \<open>/open\<close>, \<open>/admin\<close>, \<open>/_auth/login\<close> and
  private route \<open>/admin\<close>: \<open>/open\<close> is served without the middleware, \<open>/admin\<close> and
  \<open>/other\<close> behind it, and \<open>/_auth/login\<close> behind it although the routes make it
  public.
\<close>

theorem privacy_resolution_witness:
  "isPrivateRoute uw_blog (Config app_blog) ''/open'' = Some False
   \<and> dispatch uw_blog (req_get ''blog.example.com'' ''/open'') = Serve False (StaticHandler ''/www/blog'')
   \<and> dispatch uw_blog (req_get ''blog.example.com'' ''/admin'') = Serve True (StaticHandler ''/www/blog'')
   \<and> dispatch uw_blog (req_get ''blog.example.com'' ''/other'') = Serve True (StaticHandler ''/www/blog'')
   \<and> isPrivateRoute uw_blog (Config app_blog) ''/_auth/login'' = Some False
   \<and> prefix ''/_auth/'' (Path (URL (req_get ''blog.example.com'' ''/_auth/login'')))
   \<and> dispatch uw_blog (req_get ''blog.example.com'' ''/_auth/login'')
       = Serve True (StaticHandler ''/www/blog'')"
proof -
  have c: "\<forall>route\<in>set (PublicRoutes (Config app_blog)) \<union> set (PrivateRoutes (Config app_blog)).
             glob_Compile uw_blog route \<noteq> None"
    by (simp add: app_blog_def uw_blog_def)
  have h: "Host (req_get ''blog.example.com'' q) \<noteq> up_domain uw_blog" for q
    by (simp add: req_get_def uw_blog_def)
  have j: "path_Join [''/www'', ''blog''] = ''/www/blog''" by code_simp
  have ts: "strings_TrimSuffix ''blog.example.com'' (''.'' @ ''example.com'') = ''blog''"
    by code_simp
  have l: "LoadApp uw_blog (path_Join [up_dir uw_blog,
             strings_TrimSuffix (Host (req_get ''blog.example.com'' q)) (''.'' @ up_domain uw_blog)])
           (up_domain uw_blog) = Inr app_blog" for q
    using ts by (simp add: uw_blog_def req_get_def j)
  have s: "select_handler uw_blog app_blog = Inr (StaticHandler ''/www/blog'')"
    by (simp add: select_handler_def app_blog_def)
  have path: "Path (URL (req_get ''blog.example.com'' q)) = q" for q
    by (simp add: req_get_def url_root_def)
  have e: "effective_privacy uw_blog (Config app_blog) ''/open'' = False"
    "effective_privacy uw_blog (Config app_blog) ''/admin'' = True"
    "effective_privacy uw_blog (Config app_blog) ''/other'' = True"
    "effective_privacy uw_blog (Config app_blog) ''/_auth/login'' = False"
    by (simp_all add: effective_privacy_def route_matches_def app_blog_def uw_blog_def)
  have px: "\<not> strings_HasPrefix ''/open'' ''/_auth''" "prefix ''/_auth/'' ''/_auth/login''"
    by (simp_all add: strings_HasPrefix_def)
  note t = privacy_resolution [OF c h l s]
  from t [of "''/open''"] have 1: "isPrivateRoute uw_blog (Config app_blog) ''/open'' = Some False
     \<and> dispatch uw_blog (req_get ''blog.example.com'' ''/open'') = Serve False (StaticHandler ''/www/blog'')"
    by (simp add: path e px)
  from t [of "''/admin''"] have 2: "dispatch uw_blog (req_get ''blog.example.com'' ''/admin'') = Serve True (StaticHandler ''/www/blog'')"
    by (simp add: path e)
  from t [of "''/other''"] have 3: "dispatch uw_blog (req_get ''blog.example.com'' ''/other'') = Serve True (StaticHandler ''/www/blog'')"
    by (simp add: path e)
  from t [of "''/_auth/login''"] have 4: "isPrivateRoute uw_blog (Config app_blog) ''/_auth/login'' = Some False
   \<and> prefix ''/_auth/'' (Path (URL (req_get ''blog.example.com'' ''/_auth/login'')))
   \<and> dispatch uw_blog (req_get ''blog.example.com'' ''/_auth/login'')
       = Serve True (StaticHandler ''/www/blog'')"
    using px unfolding path e by blast
  from 1 2 3 4 show ?thesis by blast
qed

subsection \<open>The cron driver\<close>

lemma fst_case_sum: "fst (case x of Inl e \<Rightarrow> (n, f e) | Inr a \<Rightarrow> (n, g a)) = n"
  by (cases x) simp_all

lemma Truncate_Minute:
  "time_Truncate clk Minute mod Minute = 0"
  "time_Truncate clk Minute \<le> clk"
  "clk < time_Truncate clk Minute + Minute"
proof -
  have m: "0 < Minute" by (simp add: Minute_def Second_def)
  then show "time_Truncate clk Minute mod Minute = 0"
    by (simp add: time_Truncate_def minus_mod_eq_mult_div)
  from m have "0 \<le> clk mod Minute" "clk mod Minute < Minute" by simp_all
  with m show "time_Truncate clk Minute \<le> clk" "clk < time_Truncate clk Minute + Minute"
    by (simp_all add: time_Truncate_def)
qed

text \<open>
  C9. Let \<open>t\<close> be the time of a tick. A cron entry whose schedule parses and whose next
  time after \<open>t - 1s\<close> is \<open>t\<close> fires: the worker is asked for the command of the entry's
  arguments and, when it gives one, that command is run, once; when it gives none, nothing
  is run. A cron entry whose schedule parses and whose next time after \<open>t - 1s\<close> is not
  \<open>t\<close> does not fire, and an entry whose schedule does not parse does not fire: in both
  cases no command is asked for or run.
  The time of a tick is the clock reading rounded down to the minute: a multiple of a
  minute, not after the reading and less than a minute before it. A tick visits the
  listed apps in order; an app that does not load has no entry fired, and an app that
  loads gives each of its cron entries one outcome, computed from the time of this tick
  alone: an entry fires at most once per tick, and a minute at which no tick ran is not
  made up for, since a later tick fires an entry only when its own minute is due.
\<close>

theorem cron_fire_exactness:
  "(cron_Parse uw (Schedule job) = Inr sched \<and> sched (t - Second) = t
      \<longrightarrow> fired (run_job uw t a job)
        \<and> run_job uw t a job =
            (case worker_Command uw a (Args job) of
               Inl err \<Rightarrow> CommandError err
             | Inr c \<Rightarrow> Ran c (command_Run uw c)))
   \<and> (cron_Parse uw (Schedule job) = Inr sched \<and> sched (t - Second) \<noteq> t
      \<longrightarrow> \<not> fired (run_job uw t a job) \<and> run_job uw t a job = NotDue)
   \<and> (cron_Parse uw (Schedule job) = Inl err
      \<longrightarrow> \<not> fired (run_job uw t a job) \<and> run_job uw t a job = ParseError err)
   \<and> time_Truncate clk Minute mod Minute = 0
   \<and> time_Truncate clk Minute \<le> clk
   \<and> clk < time_Truncate clk Minute + Minute
   \<and> (ListApps uw (up_dir uw) = Inr apps \<longrightarrow> map fst (tick uw clk) = apps)
   \<and> (ListApps uw (up_dir uw) = Inr apps \<and> i < length apps
        \<and> LoadApp uw (path_Join [up_dir uw, apps ! i]) (up_domain uw) = Inr a
      \<longrightarrow> snd (tick uw clk ! i)
            = Jobs (map (run_job uw (time_Truncate clk Minute) a) (Crons (Config a))))
   \<and> (ListApps uw (up_dir uw) = Inr apps \<and> i < length apps
        \<and> LoadApp uw (path_Join [up_dir uw, apps ! i]) (up_domain uw) = Inl err
      \<longrightarrow> snd (tick uw clk ! i) = LoadError err)"
proof -
  have 1: "fired (run_job uw t a job)
        \<and> run_job uw t a job =
            (case worker_Command uw a (Args job) of
               Inl err \<Rightarrow> CommandError err
             | Inr c \<Rightarrow> Ran c (command_Run uw c))"
    if "cron_Parse uw (Schedule job) = Inr sched \<and> sched (t - Second) = t"
    using that by (simp add: run_job_def fired_def split: sum.splits)
  have 2: "\<not> fired (run_job uw t a job) \<and> run_job uw t a job = NotDue"
    if "cron_Parse uw (Schedule job) = Inr sched \<and> sched (t - Second) \<noteq> t"
    using that by (simp add: run_job_def fired_def)
  have 3: "\<not> fired (run_job uw t a job) \<and> run_job uw t a job = ParseError err"
    if "cron_Parse uw (Schedule job) = Inl err"
    using that by (simp add: run_job_def fired_def)
  have 5: "map fst (tick uw clk) = apps" if "ListApps uw (up_dir uw) = Inr apps"
    using that by (simp add: tick_def Let_def comp_def fst_case_sum)
  have 6: "snd (tick uw clk ! i)
            = Jobs (map (run_job uw (time_Truncate clk Minute) a) (Crons (Config a)))"
    if "ListApps uw (up_dir uw) = Inr apps \<and> i < length apps
        \<and> LoadApp uw (path_Join [up_dir uw, apps ! i]) (up_domain uw) = Inr a"
    using that by (simp add: tick_def Let_def)
  have 7: "snd (tick uw clk ! i) = LoadError err"
    if "ListApps uw (up_dir uw) = Inr apps \<and> i < length apps
        \<and> LoadApp uw (path_Join [up_dir uw, apps ! i]) (up_domain uw) = Inl err"
    using that by (simp add: tick_def Let_def)
  from 1 2 3 5 6 7 Truncate_Minute [of clk] show ?thesis by blast
qed

text \<open>
  A tick at 61 minutes and 5 seconds is the tick of minute 61. The every-minute entry
  fires and its command \<^verbatim>\<open>deno refresh\<close> is run; the hourly entry does not fire (it
  fires in the tick of minute 60); the every-minute entry for which the worker gives no
  command fires and runs nothing; the entry with the malformed schedule does not fire. The
  app \<open>gone\<close> does not load.
\<close>

theorem cron_fire_exactness_witness:
  "fired (run_job uw_cron (61 * Minute) app_cron \<lparr>Schedule = ''* * * * *'', Args = [''refresh'']\<rparr>)
   \<and> run_job uw_cron (61 * Minute) app_cron \<lparr>Schedule = ''* * * * *'', Args = [''refresh'']\<rparr>
       = Ran \<lparr>argv = [''deno'', ''refresh''], Dir = ''/www/blog'', Stdin = []\<rparr> None
   \<and> run_job uw_cron (61 * Minute) app_cron \<lparr>Schedule = ''0 * * * *'', Args = [''hourly'']\<rparr>
       = NotDue
   \<and> \<not> fired (run_job uw_cron (61 * Minute) app_cron \<lparr>Schedule = ''0 * * * *'', Args = [''hourly'']\<rparr>)
   \<and> run_job uw_cron (60 * Minute) app_cron \<lparr>Schedule = ''0 * * * *'', Args = [''hourly'']\<rparr>
       = Ran \<lparr>argv = [''deno'', ''hourly''], Dir = ''/www/blog'', Stdin = []\<rparr> None
   \<and> fired (run_job uw_cron (61 * Minute) app_cron \<lparr>Schedule = ''* * * * *'', Args = [''broken'']\<rparr>)
   \<and> run_job uw_cron (61 * Minute) app_cron \<lparr>Schedule = ''* * * * *'', Args = [''broken'']\<rparr>
       = CommandError ''exec: deno: executable file not found in $PATH''
   \<and> run_job uw_cron (61 * Minute) app_cron \<lparr>Schedule = ''every minute'', Args = [''never'']\<rparr>
       = ParseError ''expected exactly 5 fields''
   \<and> \<not> fired (run_job uw_cron (61 * Minute) app_cron \<lparr>Schedule = ''every minute'', Args = [''never'']\<rparr>)
   \<and> time_Truncate (61 * Minute + 5 * Second) Minute = 61 * Minute
   \<and> map fst (tick uw_cron (61 * Minute + 5 * Second)) = [''blog'', ''gone'']
   \<and> snd (tick uw_cron (61 * Minute + 5 * Second) ! 0)
       = Jobs [Ran \<lparr>argv = [''deno'', ''refresh''], Dir = ''/www/blog'', Stdin = []\<rparr> None,
               NotDue,
               CommandError ''exec: deno: executable file not found in $PATH'',
               ParseError ''expected exactly 5 fields'']
   \<and> snd (tick uw_cron (61 * Minute + 5 * Second) ! 1) = LoadError ''app not found''"
proof -
  have pm: "cron_Parse uw_cron ''* * * * *'' = Inr (\<lambda>t. (t div Minute + 1) * Minute)"
    by (simp add: uw_cron_def uw_blog_def)
  have ph: "cron_Parse uw_cron ''0 * * * *'' = Inr (\<lambda>t. (t div Hour + 1) * Hour)"
    by (simp add: uw_cron_def uw_blog_def)
  have pe: "cron_Parse uw_cron ''every minute'' = Inl ''expected exactly 5 fields''"
    by (simp add: uw_cron_def uw_blog_def)
  have due: "(61 * Minute - Second) div Minute + 1 = 61"
    "((61 * Minute - Second) div Hour + 1) * Hour \<noteq> 61 * Minute"
    "((60 * Minute - Second) div Hour + 1) * Hour = 60 * Minute"
    by (simp_all add: Hour_def Minute_def Second_def)
  have wk: "worker_Command uw_cron app_cron [''refresh'']
        = Inr \<lparr>argv = [''deno'', ''refresh''], Dir = ''/www/blog'', Stdin = []\<rparr>"
    "worker_Command uw_cron app_cron [''hourly'']
        = Inr \<lparr>argv = [''deno'', ''hourly''], Dir = ''/www/blog'', Stdin = []\<rparr>"
    "worker_Command uw_cron app_cron [''broken'']
        = Inl ''exec: deno: executable file not found in $PATH''"
    by (simp_all add: uw_cron_def uw_blog_def app_cron_def app_blog_def)
  have cr: "\<And>c. command_Run uw_cron c = None"
    by (simp add: uw_cron_def uw_blog_def)
  have la: "ListApps uw_cron (up_dir uw_cron) = Inr [''blog'', ''gone'']"
    by (simp add: uw_cron_def uw_blog_def)
  have j: "path_Join [''/www'', ''blog''] = ''/www/blog''" "path_Join [''/www'', ''gone''] = ''/www/gone''"
    by code_simp+
  have lb: "ListApps uw_cron (up_dir uw_cron) = Inr [''blog'', ''gone''] \<and> 0 < length [''blog'', ''gone'']
      \<and> LoadApp uw_cron (path_Join [up_dir uw_cron, [''blog'', ''gone''] ! 0]) (up_domain uw_cron)
          = Inr app_cron"
    by (simp add: uw_cron_def uw_blog_def j)
  have lc: "ListApps uw_cron (up_dir uw_cron) = Inr [''blog'', ''gone''] \<and> 1 < length [''blog'', ''gone'']
      \<and> LoadApp uw_cron (path_Join [up_dir uw_cron, [''blog'', ''gone''] ! 1]) (up_domain uw_cron)
          = Inl ''app not found''"
    by (simp add: uw_cron_def uw_blog_def j)
  have tr: "time_Truncate (61 * Minute + 5 * Second) Minute = 61 * Minute"
    by (simp add: time_Truncate_def Minute_def Second_def)
  note t = cron_fire_exactness [where uw = uw_cron and a = app_cron
      and clk = "61 * Minute + 5 * Second" and apps = "[''blog'', ''gone'']"]
  from t [where job = "\<lparr>Schedule = ''* * * * *'', Args = [''refresh'']\<rparr>" and t = "61 * Minute"
      and sched = "\<lambda>t. (t div Minute + 1) * Minute"] pm due
  have 1: "fired (run_job uw_cron (61 * Minute) app_cron \<lparr>Schedule = ''* * * * *'', Args = [''refresh'']\<rparr>)
   \<and> run_job uw_cron (61 * Minute) app_cron \<lparr>Schedule = ''* * * * *'', Args = [''refresh'']\<rparr>
       = Ran \<lparr>argv = [''deno'', ''refresh''], Dir = ''/www/blog'', Stdin = []\<rparr> None"
    by (simp add: wk cr fired_def)
  from t [where job = "\<lparr>Schedule = ''0 * * * *'', Args = [''hourly'']\<rparr>" and t = "61 * Minute"
      and sched = "\<lambda>t. (t div Hour + 1) * Hour"] ph due
  have 2: "run_job uw_cron (61 * Minute) app_cron \<lparr>Schedule = ''0 * * * *'', Args = [''hourly'']\<rparr>
       = NotDue
   \<and> \<not> fired (run_job uw_cron (61 * Minute) app_cron \<lparr>Schedule = ''0 * * * *'', Args = [''hourly'']\<rparr>)"
    by (simp add: fired_def)
  from t [where job = "\<lparr>Schedule = ''0 * * * *'', Args = [''hourly'']\<rparr>" and t = "60 * Minute"
      and sched = "\<lambda>t. (t div Hour + 1) * Hour"] ph due
  have 3: "run_job uw_cron (60 * Minute) app_cron \<lparr>Schedule = ''0 * * * *'', Args = [''hourly'']\<rparr>
       = Ran \<lparr>argv = [''deno'', ''hourly''], Dir = ''/www/blog'', Stdin = []\<rparr> None"
    by (simp add: wk cr fired_def)
  from t [where job = "\<lparr>Schedule = ''* * * * *'', Args = [''broken'']\<rparr>" and t = "61 * Minute"
      and sched = "\<lambda>t. (t div Minute + 1) * Minute"] pm due
  have 4: "fired (run_job uw_cron (61 * Minute) app_cron \<lparr>Schedule = ''* * * * *'', Args = [''broken'']\<rparr>)
   \<and> run_job uw_cron (61 * Minute) app_cron \<lparr>Schedule = ''* * * * *'', Args = [''broken'']\<rparr>
       = CommandError ''exec: deno: executable file not found in $PATH''"
    by (simp add: wk cr fired_def)
  from t [where job = "\<lparr>Schedule = ''every minute'', Args = [''never'']\<rparr>" and t = "61 * Minute"
      and err = "''expected exactly 5 fields''"] pe
  have 5: "run_job uw_cron (61 * Minute) app_cron \<lparr>Schedule = ''every minute'', Args = [''never'']\<rparr>
       = ParseError ''expected exactly 5 fields''
   \<and> \<not> fired (run_job uw_cron (61 * Minute) app_cron \<lparr>Schedule = ''every minute'', Args = [''never'']\<rparr>)"
    by (simp add: fired_def)
  from t la have 6: "map fst (tick uw_cron (61 * Minute + 5 * Second)) = [''blog'', ''gone'']"
    by blast
  from t [where i = 0] lb have "snd (tick uw_cron (61 * Minute + 5 * Second) ! 0)
       = Jobs (map (run_job uw_cron (time_Truncate (61 * Minute + 5 * Second) Minute) app_cron)
                (Crons (Config app_cron)))"
    by blast
  then have 7: "snd (tick uw_cron (61 * Minute + 5 * Second) ! 0)
       = Jobs [Ran \<lparr>argv = [''deno'', ''refresh''], Dir = ''/www/blog'', Stdin = []\<rparr> None,
               NotDue,
               CommandError ''exec: deno: executable file not found in $PATH'',
               ParseError ''expected exactly 5 fields'']"
    unfolding tr using 1 2 4 5 by (simp add: app_cron_def app_blog_def)
  from t [where i = 1 and err = "''app not found''"] lc
  have 8: "snd (tick uw_cron (61 * Minute + 5 * Second) ! 1) = LoadError ''app not found''"
    by blast
  from 1 2 3 4 5 tr 6 7 8 show ?thesis by blast
qed

end
